theory Spec2Isabelle
  imports Complex_Main "HOL-Library.Sublist" "HOL-Library.Char_ord" "HOL-Library.List_Lexorder"
begin

section \<open>Python values and strings\<close>

text \<open>
  The engine is written in Python. A Python \<open>str\<close> is modelled as a \<open>string\<close> (a list of
  characters with code points 0 to 255), an unbounded \<open>int\<close> as \<open>int\<close>, \<open>None\<close> as the
  \<open>None\<close> of an option type, and a raised exception as the left summand of a sum type.
\<close>

datatype py_error =
    ValueError
  | KeyError
  | IndexError
  | TypeError
  | AssertionError
  | ZeroDivisionError
  | RuntimeError
  | OSError
  | AttributeError
  | YAMLError

text \<open>\<open>needle in s\<close> on two Python strings: \<open>needle\<close> occurs as a contiguous slice of \<open>s\<close>.\<close>

fun str_contains :: "string \<Rightarrow> string \<Rightarrow> bool" where
  "str_contains [] needle = (needle = [])"
| "str_contains (c # cs) needle = (prefix needle (c # cs) \<or> str_contains cs needle)"

text \<open>\<open>str(x)\<close> of an optional string, as an f-string renders it.\<close>

fun str_of_opt :: "string option \<Rightarrow> string" where
  "str_of_opt None = ''None''"
| "str_of_opt (Some s) = s"

section \<open>The \<open>provide_solution\<close> tool (app/agents/tools/provide_solution.py)\<close>

text \<open>
  The argument \<open>is_satisfiable\<close> arrives from a JSON tool call: it is a boolean, absent
  (\<open>None\<close>), or a value of some other JSON type.
\<close>

datatype tool_arg = ArgNone | ArgBool bool | ArgOther

text \<open>
  The dictionary returned by \<open>run_target\<close> (app/utils/utils.py, not among the sources at
  hand), restricted to the two keys \<open>process_solution\<close> reads.
\<close>

record run_result =
  exec_success :: bool
  exec_error :: "string option"

text \<open>
  \<open>process_solution\<close>, lines 51 to 100. The smoke run \<open>run_target(python_execution,
  timeout=2)\<close> is the parameter \<open>run_target\<close>; it is only consulted after the textual
  checks have passed, as in the source.
\<close>

definition process_solution ::
  "(string \<Rightarrow> nat \<Rightarrow> run_result) \<Rightarrow> tool_arg \<Rightarrow> string option
     \<Rightarrow> string \<times> bool \<times> string option" where
  "process_solution run_target is_satisfiable python_execution =
     (case is_satisfiable of
        ArgNone \<Rightarrow>
          (''Error: `is_satisfiable` is not a boolean. Please provide a valid `is_satisfiable`.'',
           True, None)
      | ArgOther \<Rightarrow>
          (''Error: `is_satisfiable` is not a boolean. Please provide a valid `is_satisfiable`.'',
           True, None)
      | ArgBool False \<Rightarrow> (''UNSATISFIABLE constraints acknowledged.'', False, None)
      | ArgBool True \<Rightarrow>
          (case python_execution of
             None \<Rightarrow>
               (''Error: Python execution function is required when constraints are satisfiable.'',
                True, None)
           | Some code \<Rightarrow>
               if code = [] then
                 (''Error: Python execution function is required when constraints are satisfiable.'',
                  True, None)
               else if \<not> str_contains code ''def execute_program'' then
                 (''Error: Python execution must contain a 'def execute_program(timeout: int) -> tuple[str, int]' function.'',
                  True, None)
               else
                 (let result = run_target code 2 in
                  if \<not> exec_success result then
                    (''Running the given solution failed, error: '' @ str_of_opt (exec_error result),
                     True, None)
                  else (''Solution accepted.'', True, Some code))))"


section \<open>More string operations\<close>

text \<open>
  The characters \<open>str.strip()\<close>, \<open>str.isspace()\<close> and the regular-expression class
  \<open>\s\<close> treat as white space, among the code points 0 to 255: tab, line feed, vertical
  tab, form feed, carriage return, the separators 28 to 31, space, NEL (133) and the
  no-break space (160).
\<close>

definition is_space :: "char \<Rightarrow> bool" where
  "is_space c = (let n = (of_char c :: nat) in
     (9 \<le> n \<and> n \<le> 13) \<or> (28 \<le> n \<and> n \<le> 32) \<or> n = 133 \<or> n = 160)"

definition is_digit :: "char \<Rightarrow> bool" where
  "is_digit c = (let n = (of_char c :: nat) in 48 \<le> n \<and> n \<le> 57)"

definition lstrip :: "string \<Rightarrow> string" where
  "lstrip s = dropWhile is_space s"

definition rstrip :: "string \<Rightarrow> string" where
  "rstrip s = rev (dropWhile is_space (rev s))"

definition strip :: "string \<Rightarrow> string" where
  "strip s = rstrip (lstrip s)"

text \<open>\<open>s.split(sep)\<close> for a one-character separator: every occurrence splits.\<close>

fun split_on :: "char \<Rightarrow> string \<Rightarrow> string list" where
  "split_on sep [] = [[]]"
| "split_on sep (c # cs) =
     (if c = sep then [] # split_on sep cs
      else (case split_on sep cs of
              [] \<Rightarrow> [[c]]
            | w # ws \<Rightarrow> (c # w) # ws))"

text \<open>
  \<open>s.split(sep, 1)\<close> for a one-character separator: at most one split, at the first
  occurrence. The result has two parts when the separator occurs and one part otherwise.
\<close>

fun split_once :: "char \<Rightarrow> string \<Rightarrow> string list" where
  "split_once sep [] = [[]]"
| "split_once sep (c # cs) =
     (if c = sep then [[], cs]
      else (case split_once sep cs of
              [] \<Rightarrow> [[c]]
            | w # ws \<Rightarrow> (c # w) # ws))"

text \<open>\<open>sep.join(parts)\<close>.\<close>

fun join :: "string \<Rightarrow> string list \<Rightarrow> string" where
  "join sep [] = []"
| "join sep [p] = p"
| "join sep (p # q # ps) = p @ sep @ join sep (q # ps)"

text \<open>Decimal rendering of integers, as \<open>str(n)\<close> and the f-string \<open>{n}\<close> do.\<close>

definition digit_char :: "nat \<Rightarrow> char" where
  "digit_char d = ''0123456789'' ! d"

fun str_nat :: "nat \<Rightarrow> string" where
  "str_nat n = (if n < 10 then [digit_char n] else str_nat (n div 10) @ [digit_char (n mod 10)])"

definition str_int :: "int \<Rightarrow> string" where
  "str_int i = (if i < 0 then CHR ''-'' # str_nat (nat (- i)) else str_nat (nat i))"

fun str_int_opt :: "int option \<Rightarrow> string" where
  "str_int_opt None = ''None''"
| "str_int_opt (Some i) = str_int i"

text \<open>The format \<open>{n:06d}\<close>: zero padding to six characters, the sign included.\<close>

definition zfill :: "nat \<Rightarrow> string \<Rightarrow> string" where
  "zfill w s = replicate (w - length s) CHR ''0'' @ s"

definition fmt_06d :: "int \<Rightarrow> string" where
  "fmt_06d i = (if i < 0 then CHR ''-'' # zfill 5 (str_nat (nat (- i))) else zfill 6 (str_nat (nat i)))"

text \<open>
  \<open>int(s)\<close> on a string, base ten: surrounding white space is dropped, one sign is
  allowed, and the digits may be grouped by single underscores. Anything else raises
  \<open>ValueError\<close>, the \<open>None\<close> of the model. The white space of \<open>int\<close> is narrower than
  that of \<open>str.strip()\<close>: tab to carriage return, space, and the two separators above
  127; the separators 28 to 31 are not dropped and make the string invalid.
\<close>

definition is_int_space :: "char \<Rightarrow> bool" where
  "is_int_space c = (let n = (of_char c :: nat) in
     (9 \<le> n \<and> n \<le> 13) \<or> n = 32 \<or> n = 133 \<or> n = 160)"

fun digits_grouped_ok :: "bool \<Rightarrow> string \<Rightarrow> bool" where
  "digits_grouped_ok prev_digit [] = prev_digit"
| "digits_grouped_ok prev_digit (c # cs) =
     (if is_digit c then digits_grouped_ok True cs
      else if c = CHR ''_'' \<and> prev_digit then (cs \<noteq> [] \<and> is_digit (hd cs) \<and> digits_grouped_ok False cs)
      else False)"

definition digits_value :: "string \<Rightarrow> nat" where
  "digits_value s = foldl (\<lambda>acc c. 10 * acc + ((of_char c :: nat) - 48)) 0 (filter is_digit s)"

definition py_int :: "string \<Rightarrow> int option" where
  "py_int s =
     (let t = rev (dropWhile is_int_space (rev (dropWhile is_int_space s)));
          neg = (t \<noteq> [] \<and> hd t = CHR ''-'');
          body = (if t \<noteq> [] \<and> (hd t = CHR ''-'' \<or> hd t = CHR ''+'') then tl t else t)
      in if digits_grouped_ok False body
         then Some (if neg then - int (digits_value body) else int (digits_value body))
         else None)"

text \<open>\<open>os.path.join(a, b)\<close> for a relative second component.\<close>

definition path_join :: "string \<Rightarrow> string \<Rightarrow> string" where
  "path_join a b = (if a = [] then b else if last a = CHR ''/'' then a @ b else a @ ''/'' @ b)"

text \<open>\<open>wrap_between_tags\<close> of app/agents/common.py.\<close>

definition wrap_between_tags :: "string \<Rightarrow> string \<Rightarrow> string" where
  "wrap_between_tags tag s = ''<'' @ tag @ ''>'' @ s @ ''</'' @ tag @ ''>''"


section \<open>Test cases (app/agents/testcase.py)\<close>

text \<open>The enumeration \<open>TestcaseState\<close> of app/agents/states.py.\<close>

datatype TestcaseState =
    SELECT
  | SUMMARIZE
  | SOLVE
  | EXECUTE
  | REVIEW_SOLVER
  | REVIEW_SOLVER_EXECUTE
  | REVIEW_SUMMARY
  | REVIEW_SUMMARY_SOLVE
  | REVIEW_SUMMARY_EXECUTE
  | FINISHED

text \<open>
  The fields of the dataclass \<open>TestCase\<close>, in the order of the source. The same keys make
  up the dictionary that is written to YAML, where three of them are encoded: the type
  parameters are the types of \<open>target_file_lines\<close>, \<open>states\<close> and \<open>usage\<close>. The field
  \<open>id\<close> is named \<open>tc_id\<close> and the private \<open>_out_dir\<close> is named \<open>tc_out_dir\<close>.
\<close>

record ('l, 's, 'u) TestCaseFields =
  tc_id :: int
  src_id :: "int option"
  create_time :: string
  time_taken :: "int option"
  states :: 's
  is_target_covered :: bool
  new_coverage :: bool
  newly_covered_lines :: int
  is_satisfiable :: bool
  is_crash :: bool
  is_hang :: bool
  usage :: 'u
  target_branch :: "string option"
  target_file_lines :: 'l
  target_lines_content :: "string option"
  justification :: "string option"
  target_path_constraint :: "string option"
  selected_cnt :: int
  successful_generation_cnt :: int
  exec_code :: "string option"
  returncode :: "int option"
  src_execution_summary :: "string option"
  crash_info :: "string option"
  execution_trace :: "string option"
  execution_summary :: "string option"
  src_exec_code :: "string option"
  src_execution_trace :: "string option"
  tc_out_dir :: "string option"

text \<open>
  The value of \<open>usage\<close>: the dictionary of usage records (the class \<open>Usage\<close> of
  app/model/common.py is not among the sources at hand, so the dictionary is the type
  parameter \<open>'u\<close>), or a string that \<open>process_dict_from_yaml\<close> could not parse and left
  in place.
\<close>

datatype 'u usage_value = UsageDict 'u | UsageText string

type_synonym 'u TestCase =
  "(string option \<times> (int option \<times> int option), TestcaseState list, 'u usage_value) TestCaseFields"

text \<open>
  The dictionary written to and read from YAML: \<open>target_file_lines\<close> is a string or
  \<open>None\<close>, \<open>states\<close> is a list of names, \<open>usage\<close> is a string or the empty dictionary
  (\<open>None\<close> here).
\<close>

type_synonym TestCaseDict = "(string option, string list, string option) TestCaseFields"

text \<open>
  The dataclass constructor. Every field assignment goes through \<open>__setattr__\<close>, which
  overwrites \<open>time_taken\<close> with \<open>get_time_taken()\<close> (the parameter \<open>now\<close>) once
  \<open>states\<close> is set, not empty and not ending in \<open>FINISHED\<close>; the fields after \<open>states\<close>
  trigger it. \<open>__post_init__\<close> resets \<open>_out_dir\<close>.
\<close>

definition new_TestCase :: "int \<Rightarrow> 'u TestCase \<Rightarrow> 'u TestCase" where
  "new_TestCase now tc =
     (if states tc \<noteq> [] \<and> last (states tc) \<noteq> FINISHED
      then tc\<lparr>time_taken := Some now, tc_out_dir := None\<rparr>
      else tc\<lparr>tc_out_dir := None\<rparr>)"

text \<open>
  The defaults of the dataclass fields; \<open>create_time\<close> is the formatted clock reading and
  \<open>usage0\<close> the dictionary \<open>{"TOTAL": Usage()}\<close>.
\<close>

definition default_fields :: "string \<Rightarrow> 'u \<Rightarrow> int \<Rightarrow> 'u TestCase" where
  "default_fields created usage0 i =
     \<lparr>tc_id = i, src_id = None, create_time = created, time_taken = None, states = [],
      is_target_covered = False, new_coverage = False, newly_covered_lines = 0,
      is_satisfiable = False, is_crash = False, is_hang = False, usage = UsageDict usage0,
      target_branch = None, target_file_lines = (None, (None, None)),
      target_lines_content = None, justification = None, target_path_constraint = None,
      selected_cnt = 0, successful_generation_cnt = 0, exec_code = None, returncode = None,
      src_execution_summary = None, crash_info = None, execution_trace = None,
      execution_summary = None, src_exec_code = None, src_execution_trace = None,
      tc_out_dir = None\<rparr>"

definition current_state :: "'u TestCase \<Rightarrow> TestcaseState option" where
  "current_state tc = (if states tc \<noteq> [] then Some (last (states tc)) else None)"

definition is_crash_or_hang :: "'u TestCase \<Rightarrow> bool" where
  "is_crash_or_hang tc = (is_crash tc \<or> is_hang tc)"

definition is_valuable :: "'u TestCase \<Rightarrow> bool" where
  "is_valuable tc = (is_target_covered tc \<or> new_coverage tc)"

subsection \<open>Serialization\<close>

definition str_of_state :: "TestcaseState \<Rightarrow> string" where
  "str_of_state st =
     (case st of
        SELECT \<Rightarrow> ''SELECT''
      | SUMMARIZE \<Rightarrow> ''SUMMARIZE''
      | SOLVE \<Rightarrow> ''SOLVE''
      | EXECUTE \<Rightarrow> ''EXECUTE''
      | REVIEW_SOLVER \<Rightarrow> ''REVIEW_SOLVER''
      | REVIEW_SOLVER_EXECUTE \<Rightarrow> ''REVIEW_SOLVER_EXECUTE''
      | REVIEW_SUMMARY \<Rightarrow> ''REVIEW_SUMMARY''
      | REVIEW_SUMMARY_SOLVE \<Rightarrow> ''REVIEW_SUMMARY_SOLVE''
      | REVIEW_SUMMARY_EXECUTE \<Rightarrow> ''REVIEW_SUMMARY_EXECUTE''
      | FINISHED \<Rightarrow> ''FINISHED'')"

text \<open>\<open>TestcaseState[name]\<close>: the member of that name, or \<open>KeyError\<close>.\<close>

definition state_of_str :: "string \<Rightarrow> py_error + TestcaseState" where
  "state_of_str name =
     (if name = ''SELECT'' then Inr SELECT
      else if name = ''SUMMARIZE'' then Inr SUMMARIZE
      else if name = ''SOLVE'' then Inr SOLVE
      else if name = ''EXECUTE'' then Inr EXECUTE
      else if name = ''REVIEW_SOLVER'' then Inr REVIEW_SOLVER
      else if name = ''REVIEW_SOLVER_EXECUTE'' then Inr REVIEW_SOLVER_EXECUTE
      else if name = ''REVIEW_SUMMARY'' then Inr REVIEW_SUMMARY
      else if name = ''REVIEW_SUMMARY_SOLVE'' then Inr REVIEW_SUMMARY_SOLVE
      else if name = ''REVIEW_SUMMARY_EXECUTE'' then Inr REVIEW_SUMMARY_EXECUTE
      else if name = ''FINISHED'' then Inr FINISHED
      else Inl KeyError)"

fun states_of_strs :: "string list \<Rightarrow> py_error + TestcaseState list" where
  "states_of_strs [] = Inr []"
| "states_of_strs (n # ns) =
     (case state_of_str n of
        Inl e \<Rightarrow> Inl e
      | Inr st \<Rightarrow> (case states_of_strs ns of Inl e \<Rightarrow> Inl e | Inr sts \<Rightarrow> Inr (st # sts)))"

text \<open>\<open>TestCaseYAML.target_file_lines_to_str\<close>, lines 55 to 63.\<close>

definition target_file_lines_to_str ::
  "string option \<times> (int option \<times> int option) \<Rightarrow> string option" where
  "target_file_lines_to_str file_lines =
     (case fst file_lines of
        None \<Rightarrow> None
      | Some file_path \<Rightarrow>
          Some (file_path @ '':'' @ str_int_opt (fst (snd file_lines)) @ ''-''
                  @ str_int_opt (snd (snd file_lines))))"

text \<open>
  \<open>TestCaseYAML.str_to_target_file_lines\<close>, lines 65 to 74. Unpacking a split that has
  fewer than two parts raises \<open>ValueError\<close>, and so does \<open>int\<close> on a string that is not
  a number.
\<close>

definition str_to_target_file_lines ::
  "string option \<Rightarrow> py_error + (string option \<times> (int option \<times> int option))" where
  "str_to_target_file_lines v =
     (case v of
        None \<Rightarrow> Inr (None, (None, None))
      | Some s \<Rightarrow>
          if s = [] then Inr (None, (None, None))
          else (case split_once CHR '':'' s of
                  [file_path, line_range] \<Rightarrow>
                    (case split_once CHR ''-'' line_range of
                       [start, end] \<Rightarrow>
                         (case py_int start of
                            None \<Rightarrow> Inl ValueError
                          | Some a \<Rightarrow>
                              (case py_int end of
                                 None \<Rightarrow> Inl ValueError
                               | Some b \<Rightarrow> Inr (Some file_path, (Some a, Some b))))
                     | _ \<Rightarrow> Inl ValueError)
                | _ \<Rightarrow> Inl ValueError))"

text \<open>
  \<open>TestCase.to_dict\<close> with \<open>TestCaseYAML.process_dict_for_yaml\<close>, lines 162 to 190 and 427
  to 437. \<open>format_usage_dict\<close> renders the usage dictionary through the YAML library and
  \<open>Usage.model_dump\<close>; it is the parameter \<open>format_usage\<close>, and \<open>usage_empty\<close> tells
  whether the dictionary is empty (then it is written as it is). The private fields are
  removed. Marking a multi-line string as a literal block scalar does not change its
  value.
\<close>

definition to_dict :: "('u \<Rightarrow> bool) \<Rightarrow> ('u \<Rightarrow> string) \<Rightarrow> 'u TestCase \<Rightarrow> TestCaseDict" where
  "to_dict usage_empty format_usage tc =
     \<lparr>tc_id = tc_id tc, src_id = src_id tc, create_time = create_time tc,
      time_taken = time_taken tc, states = map str_of_state (states tc),
      is_target_covered = is_target_covered tc, new_coverage = new_coverage tc,
      newly_covered_lines = newly_covered_lines tc, is_satisfiable = is_satisfiable tc,
      is_crash = is_crash tc, is_hang = is_hang tc,
      usage = (case usage tc of
                 UsageDict d \<Rightarrow> if usage_empty d then None else Some (format_usage d)
               | UsageText t \<Rightarrow> Some t),
      target_branch = target_branch tc,
      target_file_lines = target_file_lines_to_str (target_file_lines tc),
      target_lines_content = target_lines_content tc, justification = justification tc,
      target_path_constraint = target_path_constraint tc, selected_cnt = selected_cnt tc,
      successful_generation_cnt = successful_generation_cnt tc, exec_code = exec_code tc,
      returncode = returncode tc, src_execution_summary = src_execution_summary tc,
      crash_info = crash_info tc, execution_trace = execution_trace tc,
      execution_summary = execution_summary tc, src_exec_code = src_exec_code tc,
      src_execution_trace = src_execution_trace tc, tc_out_dir = None\<rparr>"

text \<open>
  \<open>TestCase.from_dict\<close> with \<open>TestCaseYAML.process_dict_from_yaml\<close>, lines 192 to 224 and
  439 to 450. \<open>parse_usage\<close> stands for \<open>parse_usage_dict\<close>, \<open>None\<close> when it raises: the
  exception is caught and the string stays. \<open>empty_usage\<close> is the empty dictionary.
\<close>

definition from_dict ::
  "'u \<Rightarrow> (string \<Rightarrow> 'u option) \<Rightarrow> int \<Rightarrow> TestCaseDict \<Rightarrow> py_error + 'u TestCase" where
  "from_dict empty_usage parse_usage now data =
     (case str_to_target_file_lines (target_file_lines data) of
        Inl e \<Rightarrow> Inl e
      | Inr file_lines \<Rightarrow>
          (case states_of_strs (states data) of
             Inl e \<Rightarrow> Inl e
           | Inr sts \<Rightarrow>
               Inr (new_TestCase now
                 \<lparr>tc_id = tc_id data, src_id = src_id data, create_time = create_time data,
                  time_taken = time_taken data, states = sts,
                  is_target_covered = is_target_covered data, new_coverage = new_coverage data,
                  newly_covered_lines = newly_covered_lines data,
                  is_satisfiable = is_satisfiable data, is_crash = is_crash data,
                  is_hang = is_hang data,
                  usage = (case usage data of
                             None \<Rightarrow> UsageDict empty_usage
                           | Some t \<Rightarrow>
                               if strip t = [] then UsageText t
                               else (case parse_usage t of
                                       None \<Rightarrow> UsageText t
                                     | Some d \<Rightarrow> UsageDict d)),
                  target_branch = target_branch data, target_file_lines = file_lines,
                  target_lines_content = target_lines_content data,
                  justification = justification data,
                  target_path_constraint = target_path_constraint data,
                  selected_cnt = selected_cnt data,
                  successful_generation_cnt = successful_generation_cnt data,
                  exec_code = exec_code data, returncode = returncode data,
                  src_execution_summary = src_execution_summary data,
                  crash_info = crash_info data, execution_trace = execution_trace data,
                  execution_summary = execution_summary data,
                  src_exec_code = src_exec_code data,
                  src_execution_trace = src_execution_trace data, tc_out_dir = None\<rparr>)))"


subsection \<open>Saving and loading\<close>

text \<open>
  What the test-case code takes from outside the sources at hand: the YAML library
  (\<open>yaml_dump\<close> is \<open>None\<close> when all three serializers of \<open>save_to_disk\<close> fail; \<open>yaml_load\<close>
  is the exception when the loader raises, \<open>None\<close> when it gives something that is not a
  dictionary, and the dictionary otherwise), the class \<open>Usage\<close> behind
  \<open>format_usage_dict\<close> and \<open>parse_usage_dict\<close>, and the clock (\<open>get_time_taken()\<close> and the
  formatted \<open>datetime.now()\<close>). A dictionary read from YAML is taken to have the keys of
  a test case, each with a value of the field's type.
\<close>

record 'u externals =
  yaml_dump :: "TestCaseDict \<Rightarrow> string option"
  yaml_load :: "string \<Rightarrow> py_error + TestCaseDict option"
  usage_empty :: "'u \<Rightarrow> bool"
  format_usage :: "'u \<Rightarrow> string"
  parse_usage :: "string \<Rightarrow> 'u option"
  empty_usage :: 'u
  default_usage :: 'u
  time_now :: int
  created_now :: string

text \<open>
  The disk is a map from paths to file contents; writing a file succeeds (the retries
  of \<open>write_to_yaml_file\<close> on an operating-system error are outside the model).
\<close>

type_synonym disk = "string \<rightharpoonup> string"

definition yaml_filename :: "('l, 's, 'u) TestCaseFields \<Rightarrow> string" where
  "yaml_filename tc =
     (case src_id tc of
        Some src \<Rightarrow> ''id:'' @ fmt_06d (tc_id tc) @ '',src:'' @ fmt_06d src @ ''.yaml''
      | None \<Rightarrow> ''id:'' @ fmt_06d (tc_id tc) @ ''.yaml'')"

text \<open>\<open>TestCase.save_to_disk\<close>, lines 481 to 545.\<close>

definition save_to_disk :: "'u externals \<Rightarrow> 'u TestCase \<Rightarrow> disk \<Rightarrow> py_error + disk" where
  "save_to_disk ext tc d =
     (case tc_out_dir tc of
        None \<Rightarrow> Inl ValueError
      | Some dir \<Rightarrow>
          if dir = [] then Inl ValueError
          else
            (let queue_dir = path_join dir ''queue'';
                 data = to_dict (usage_empty ext) (format_usage ext) tc;
                 filename = yaml_filename tc
             in case yaml_dump ext data of
                  None \<Rightarrow> Inl RuntimeError
                | Some yaml_str \<Rightarrow>
                    (let yaml_path = path_join queue_dir filename;
                         d1 = d(yaml_path \<mapsto> yaml_str)
                     in if is_crash tc \<or> is_hang tc
                        then Inr (d1(path_join (path_join dir ''crashes_or_hangs'') filename
                                       \<mapsto> yaml_str))
                        else Inr d1)))"

text \<open>
  \<open>TestCase.load_from_file\<close>, lines 547 to 588: the bytes 0, 4 and 127 are removed from
  the file before it is parsed, an exception of the loader propagates, a result that is
  not a dictionary raises \<open>ValueError\<close>, and \<open>time_taken\<close> is set again from the file at
  the end.
\<close>

definition load_from_file ::
  "'u externals \<Rightarrow> string \<Rightarrow> string \<Rightarrow> disk \<Rightarrow> py_error + 'u TestCase" where
  "load_from_file ext yaml_path dir d =
     (case d yaml_path of
        None \<Rightarrow> Inl OSError
      | Some content \<Rightarrow>
          (case yaml_load ext
                  (filter (\<lambda>c. c \<noteq> CHR 0x00 \<and> c \<noteq> CHR 0x04 \<and> c \<noteq> CHR 0x7F) content) of
             Inl e \<Rightarrow> Inl e
           | Inr None \<Rightarrow> Inl ValueError
           | Inr (Some data) \<Rightarrow>
               (case from_dict (empty_usage ext) (parse_usage ext) (time_now ext) data of
                  Inl e \<Rightarrow> Inl e
                | Inr tc \<Rightarrow>
                    Inr ((if dir \<noteq> [] then tc\<lparr>tc_out_dir := Some dir\<rparr> else tc)
                           \<lparr>time_taken := time_taken data\<rparr>))))"

subsection \<open>Seeds and the corpus manager\<close>

text \<open>\<open>TestCase.create_initial\<close>, lines 365 to 400.\<close>

definition create_initial ::
  "'u externals \<Rightarrow> int \<Rightarrow> string \<Rightarrow> string \<Rightarrow> string \<Rightarrow> int \<Rightarrow> string option \<Rightarrow> disk
     \<Rightarrow> py_error + ('u TestCase \<times> disk)" where
  "create_initial ext i code trace summary newly_covered dir d =
     (if \<not> newly_covered > 0 then Inl AssertionError
      else
        (let tc = new_TestCase (time_now ext)
               ((default_fields (created_now ext) (default_usage ext) i)
                  \<lparr>src_id := None, time_taken := Some 0, src_exec_code := None,
                   src_execution_trace := None, exec_code := Some code,
                   execution_trace := Some trace, execution_summary := Some summary,
                   new_coverage := True, newly_covered_lines := newly_covered,
                   is_target_covered := True, states := [FINISHED]\<rparr>)
         in case dir of
              None \<Rightarrow> Inr (tc, d)
            | Some dir_name \<Rightarrow>
                if dir_name = [] then Inr (tc, d)
                else (let tc1 = tc\<lparr>tc_out_dir := Some dir_name\<rparr>
                      in case save_to_disk ext tc1 d of
                           Inl e \<Rightarrow> Inl e
                         | Inr d1 \<Rightarrow> Inr (tc1, d1))))"

text \<open>
  The corpus manager: \<open>test_cases\<close> is a Python dictionary, kept as an association list
  in insertion order.
\<close>

record 'u TestCaseManager =
  out_dir :: string
  test_cases :: "(int \<times> 'u TestCase) list"
  next_testcase_id :: int

text \<open>\<open>d[k] = v\<close> on a dictionary: an existing key keeps its place.\<close>

fun dict_set :: "'k \<Rightarrow> 'v \<Rightarrow> ('k \<times> 'v) list \<Rightarrow> ('k \<times> 'v) list" where
  "dict_set k v [] = [(k, v)]"
| "dict_set k v (p # ps) = (if fst p = k then (k, v) # ps else p # dict_set k v ps)"

text \<open>\<open>TestCaseManager.add_initial_testcase\<close>, lines 642 to 663.\<close>

definition add_initial_testcase ::
  "'u externals \<Rightarrow> 'u TestCaseManager \<Rightarrow> string \<Rightarrow> string \<Rightarrow> string \<Rightarrow> int \<Rightarrow> bool \<Rightarrow> disk
     \<Rightarrow> py_error + ('u TestCase \<times> 'u TestCaseManager \<times> disk)" where
  "add_initial_testcase ext mgr code trace summary newly_covered save_immediately d =
     (case create_initial ext (next_testcase_id mgr) code trace summary newly_covered
             (Some (out_dir mgr)) d of
        Inl e \<Rightarrow> Inl e
      | Inr (testcase, d1) \<Rightarrow>
          (let mgr1 = mgr\<lparr>test_cases := dict_set (next_testcase_id mgr) testcase (test_cases mgr),
                           next_testcase_id := next_testcase_id mgr + 1\<rparr>
           in if save_immediately
              then (case save_to_disk ext testcase d1 of
                      Inl e \<Rightarrow> Inl e
                    | Inr d2 \<Rightarrow> Inr (testcase, mgr1, d2))
              else Inr (testcase, mgr1, d1)))"

definition get_testcase :: "'u TestCaseManager \<Rightarrow> int \<Rightarrow> 'u TestCase option" where
  "get_testcase mgr i = map_of (test_cases mgr) i"

subsection \<open>The scheduling view\<close>

text \<open>
  \<open>TestCase.get_historical_information\<close>, lines 605 to 618, with its assertion.
\<close>

definition get_historical_information :: "'u TestCase \<Rightarrow> py_error + (int \<times> int)" where
  "get_historical_information tc =
     (let failure_cnt = selected_cnt tc - successful_generation_cnt tc
      in if failure_cnt \<le> selected_cnt tc then Inr (failure_cnt, selected_cnt tc)
         else Inl AssertionError)"

text \<open>
  \<open>TestCaseManager.get_test_case_scheduling_information\<close>, lines 920 to 1046. The text of
  the function call chain (lines 955 to 1031) is computed from the execution trace and the
  coverage registry: it is the parameter \<open>call_chain\<close>, applied to the trace;
  \<open>trace_compress\<close> starts with \<open>trace.strip()\<close>, so a case without a trace raises
  \<open>AttributeError\<close>. \<open>fmt_percent\<close> is the format \<open>{fail_ratio:.1%}\<close>. The ratio and the
  weight are exact rationals here, where Python computes with binary floats: the two
  agree where the float operations are exact (as for a case that was never selected),
  and a weight that Python rounds may compare differently. The last line of the source
  is \<open>return info, weight + 1 if tc.new_coverage else 0\<close>: the conditional expression binds
  weaker than \<open>+\<close>, so the second component is \<open>weight + 1\<close> with new coverage and \<open>0\<close>
  without.
\<close>

definition get_test_case_scheduling_information ::
  "(string \<Rightarrow> py_error + string) \<Rightarrow> (rat \<Rightarrow> string) \<Rightarrow> 'u TestCaseManager \<Rightarrow> int
     \<Rightarrow> py_error + (string \<times> rat)" where
  "get_test_case_scheduling_information call_chain fmt_percent mgr i =
     (case get_testcase mgr i of
        None \<Rightarrow> Inl ValueError
      | Some tc \<Rightarrow>
          (case (case execution_trace tc of
                   None \<Rightarrow> Inl AttributeError
                 | Some trace \<Rightarrow> call_chain trace) of
             Inl e \<Rightarrow> Inl e
           | Inr func_call_chain_str \<Rightarrow>
               (case get_historical_information tc of
                  Inl e \<Rightarrow> Inl e
                | Inr historical_fail_info \<Rightarrow>
                    (let fail_ratio =
                           (if snd historical_fail_info > 0
                            then rat_of_int (fst historical_fail_info)
                                   / rat_of_int (snd historical_fail_info)
                            else 0);
                         weight = 1 - fail_ratio;
                         info =
                           wrap_between_tags ''test_case_id'' (str_int (tc_id tc))
                           @ wrap_between_tags ''src_test_case_id'' (str_int_opt (src_id tc))
                           @ wrap_between_tags ''path_constraint''
                               (if is_target_covered tc then str_of_opt (target_path_constraint tc)
                                else ''None'')
                           @ wrap_between_tags ''execution_information'' (str_of_opt (exec_code tc))
                           @ wrap_between_tags ''function_call_chain'' func_call_chain_str
                           @ wrap_between_tags ''historical_information''
                               (str_int (fst historical_fail_info) @ ''/''
                                  @ str_int (snd historical_fail_info) @ ''(''
                                  @ fmt_percent fail_ratio @ '')'')
                     in Inr (info, if new_coverage tc then weight + 1 else 0)))))"

text \<open>
  The weight as the specification words it:
  \<open>(1 - failure_ratio) + (1 if new_coverage else 0)\<close> with
  \<open>failure_ratio = (selected - successful) / selected\<close>, and \<open>0\<close> when nothing was selected.
\<close>

definition spec_failure_ratio :: "'u TestCase \<Rightarrow> rat" where
  "spec_failure_ratio tc =
     (if selected_cnt tc = 0 then 0
      else rat_of_int (selected_cnt tc - successful_generation_cnt tc) / rat_of_int (selected_cnt tc))"

definition spec_weight :: "'u TestCase \<Rightarrow> rat" where
  "spec_weight tc = (1 - spec_failure_ratio tc) + (if new_coverage tc then 1 else 0)"

definition NL :: string where
  "NL = [CHR 0x0A]"

text \<open>\<open>SCHEDULING_FORMAT_REMINDER\<close> of app/agents/common.py.\<close>

definition SCHEDULING_FORMAT_REMINDER :: string where
  "SCHEDULING_FORMAT_REMINDER =
     ''Format Remind: ''
     @ wrap_between_tags ''function_call_chain''
         ''{filename}[func_name (overall line coverage until now)][line coverage achieved by this execution]''
     @ NL
     @ wrap_between_tags ''historical_information'' ''[failed times]/[total selected times](ratio)''
     @ NL @ NL @ '' This following is the information of each test case: ''"

definition TOKEN_LIMIT :: rat where
  "TOKEN_LIMIT = 180 * 1000"

text \<open>
  The first loop of \<open>get_all_scheduling_information\<close>, lines 869 to 882: the valuable
  cases with their information text, weight and id.
\<close>

fun collect_valuable ::
  "(string \<Rightarrow> py_error + string) \<Rightarrow> (rat \<Rightarrow> string) \<Rightarrow> 'u TestCaseManager
     \<Rightarrow> (int \<times> 'u TestCase) list \<Rightarrow> py_error + (string \<times> rat \<times> int) list" where
  "collect_valuable call_chain fmt_percent mgr [] = Inr []"
| "collect_valuable call_chain fmt_percent mgr ((i, tc) # items) =
     (if is_valuable tc then
        (if exec_code tc = None then Inl AssertionError
         else
           (case get_test_case_scheduling_information call_chain fmt_percent mgr i of
              Inl e \<Rightarrow> Inl e
            | Inr (info, weight) \<Rightarrow>
                (case collect_valuable call_chain fmt_percent mgr items of
                   Inl e \<Rightarrow> Inl e
                 | Inr infos \<Rightarrow>
                     Inr ((wrap_between_tags ''test_case_information'' info, weight, i) # infos))))
      else collect_valuable call_chain fmt_percent mgr items)"

text \<open>
  \<open>valuable_testcase_info.sort(key=lambda x: (x[1], x[2]), reverse=True)\<close>: descending in
  the pair of weight and id, entries of equal key staying in their order.
\<close>

definition key_greater :: "string \<times> rat \<times> int \<Rightarrow> string \<times> rat \<times> int \<Rightarrow> bool" where
  "key_greater x y =
     (fst (snd x) > fst (snd y) \<or> (fst (snd x) = fst (snd y) \<and> snd (snd x) > snd (snd y)))"

fun insert_desc ::
  "string \<times> rat \<times> int \<Rightarrow> (string \<times> rat \<times> int) list \<Rightarrow> (string \<times> rat \<times> int) list" where
  "insert_desc x [] = [x]"
| "insert_desc x (y # ys) = (if key_greater y x then y # insert_desc x ys else x # y # ys)"

definition sort_desc :: "(string \<times> rat \<times> int) list \<Rightarrow> (string \<times> rat \<times> int) list" where
  "sort_desc xs = foldr insert_desc xs []"

text \<open>The dictionary comprehension \<open>{tc_id: info for info, _, tc_id in ...}\<close>.\<close>

definition dict_of_infos :: "(string \<times> rat \<times> int) list \<Rightarrow> (int \<times> string) list" where
  "dict_of_infos xs = foldl (\<lambda>d x. dict_set (snd (snd x)) (fst x) d) [] xs"

text \<open>
  The truncation loop, lines 902 to 916. \<open>estimate_text_token\<close> of app/utils/utils.py is
  the parameter \<open>estimate\<close>. Running out of cases ends in \<open>assert False\<close>.
\<close>

fun truncate_loop ::
  "(string \<Rightarrow> rat) \<Rightarrow> (string \<times> rat \<times> int) list \<Rightarrow> string \<Rightarrow> (string \<times> rat \<times> int) list
     \<Rightarrow> py_error + (int \<times> string) list" where
  "truncate_loop estimate [] truncated_str selected_tc_ids = Inl AssertionError"
| "truncate_loop estimate (x # xs) truncated_str selected_tc_ids =
     (if estimate (truncated_str @ fst x) > TOKEN_LIMIT then
        (if length selected_tc_ids > 0 then Inr (dict_of_infos selected_tc_ids)
         else Inl AssertionError)
      else truncate_loop estimate xs (truncated_str @ fst x @ NL @ NL) (selected_tc_ids @ [x]))"

text \<open>\<open>TestCaseManager.get_all_scheduling_information\<close>, lines 855 to 918.\<close>

definition get_all_scheduling_information ::
  "(string \<Rightarrow> rat) \<Rightarrow> (string \<Rightarrow> py_error + string) \<Rightarrow> (rat \<Rightarrow> string)
     \<Rightarrow> 'u TestCaseManager \<Rightarrow> py_error + (int \<times> string) list" where
  "get_all_scheduling_information estimate call_chain fmt_percent mgr =
     (if test_cases mgr = [] then Inl ValueError
      else
        (case collect_valuable call_chain fmt_percent mgr (test_cases mgr) of
           Inl e \<Rightarrow> Inl e
         | Inr valuable_testcase_info \<Rightarrow>
             (let raw_str = join (NL @ NL)
                              (SCHEDULING_FORMAT_REMINDER # map fst valuable_testcase_info)
              in if estimate raw_str > TOKEN_LIMIT
                 then truncate_loop estimate (sort_desc valuable_testcase_info)
                        (SCHEDULING_FORMAT_REMINDER @ NL @ NL) []
                 else Inr (dict_of_infos valuable_testcase_info))))"

text \<open>
  The text of a view whose tokens \<open>get_all_scheduling_information\<close> estimates (\<open>raw_str\<close>,
  and \<open>truncated_str + info\<close> in the truncation loop): the reminder and the information
  texts, joined by blank lines. The scheduler (app/agents/agent_scheduling.py, lines 117
  to 123) builds the same text from a view that is not empty and passes it through
  \<open>unescape\<close> before it is sent; that last step is not part of this text.
\<close>

definition view_text :: "(int \<times> string) list \<Rightarrow> string" where
  "view_text tc_info = join (NL @ NL) (SCHEDULING_FORMAT_REMINDER # map snd tc_info)"


definition info_text :: "(string \<times> rat \<times> int) list \<Rightarrow> string" where
  "info_text infos = join (NL @ NL) (SCHEDULING_FORMAT_REMINDER # map fst infos)"

section \<open>The trace collector (app/agents/trace.py)\<close>

text \<open>A block is a function name with a block id.\<close>

type_synonym block = "string \<times> int"

definition GLOBAL_BLOCK :: block where
  "GLOBAL_BLOCK = (''Global'', 0)"

definition INSTRUMENT_BLOCK :: block where
  "INSTRUMENT_BLOCK = (''Instrumentation'', 0)"

subsection \<open>Trace markers\<close>

text \<open>
  \<open>re.match(TRACE_PATTERN, s)\<close> with
  \<open>TRACE_PATTERN = r".*?(enter|exit)\s+([^\s]+)\s+(\d+).*?"\<close>. At one position the
  pattern asks for the word \<open>enter\<close> or \<open>exit\<close>, white space, a run of characters that
  are not white space, white space, and digits. Each greedy group can only match its
  maximal run (a shorter run is followed by a character of the same class, which the
  next group refuses), so the match at a position is determined. The groups are the
  action, the function name and the digits, read by \<open>int\<close>.
\<close>

definition match_marker_here :: "string \<Rightarrow> (string \<times> string \<times> int) option" where
  "match_marker_here s =
     (let action = (if prefix ''enter'' s then Some ''enter''
                    else if prefix ''exit'' s then Some ''exit'' else None)
      in case action of
           None \<Rightarrow> None
         | Some a \<Rightarrow>
             (let r1 = drop (length a) s;
                  r2 = dropWhile is_space r1;
                  func_name = takeWhile (\<lambda>c. \<not> is_space c) r2;
                  r3 = dropWhile (\<lambda>c. \<not> is_space c) r2;
                  r4 = dropWhile is_space r3;
                  bb_id = takeWhile is_digit r4
              in if r2 = r1 \<or> func_name = [] \<or> r4 = r3 \<or> bb_id = [] then None
                 else Some (a, func_name, int (digits_value bb_id))))"

text \<open>
  The lazy prefix \<open>.*?\<close> tries the positions from the left; \<open>.\<close> does not pass a line
  feed.
\<close>

fun match_marker :: "string \<Rightarrow> (string \<times> string \<times> int) option" where
  "match_marker [] = match_marker_here []"
| "match_marker (c # cs) =
     (case match_marker_here (c # cs) of
        Some m \<Rightarrow> Some m
      | None \<Rightarrow> if c = CHR 0x0A then None else match_marker cs)"

text \<open>\<open>s.add(x)\<close> on a set that is kept as a list without repetitions.\<close>

definition set_add :: "'a \<Rightarrow> 'a list \<Rightarrow> 'a list" where
  "set_add x xs = (if x \<in> set xs then xs else xs @ [x])"

text \<open>
  \<open>get_executed_blocks\<close>, lines 586 to 597. The Python set is kept as a list in the order
  of insertion; Python iterates a set in the order of its hash table. The hit counts and
  the number of newly covered lines do not depend on that order; only which exception
  comes first, when several blocks would raise one, can.
\<close>

fun add_line_blocks :: "string list \<Rightarrow> block list \<Rightarrow> block list" where
  "add_line_blocks [] executed_blocks = executed_blocks"
| "add_line_blocks (l # ls) executed_blocks =
     (case match_marker (strip l) of
        None \<Rightarrow> add_line_blocks ls executed_blocks
      | Some m \<Rightarrow> add_line_blocks ls (set_add (fst (snd m), snd (snd m)) executed_blocks))"

definition get_executed_blocks :: "string \<Rightarrow> block list" where
  "get_executed_blocks trace_str = add_line_blocks (split_on CHR 0x0A trace_str) [GLOBAL_BLOCK]"

subsection \<open>The collector\<close>

text \<open>
  The attributes of \<open>TraceCollector\<close> the coverage accounting uses; \<open>size\<close> is named
  \<open>size_lines\<close> and \<open>summary\<close> is named \<open>last_summary\<close>. Dictionaries are maps.
\<close>

record TraceCollector =
  file_path :: string
  comment_token :: string
  line2code :: "int \<rightharpoonup> string"
  begin_copyright_lines :: int
  line2blocks :: "int \<rightharpoonup> block list"
  block2cov :: "block \<rightharpoonup> int"
  block2lines :: "block \<rightharpoonup> int \<times> int"
  block2real_lines :: "block \<rightharpoonup> int \<times> int"
  real_line2line :: "int \<rightharpoonup> int"
  size_lines :: int
  instrumentation_cnt :: int
  last_summary :: "int \<rightharpoonup> string"

text \<open>\<open>d[k]\<close> on a dictionary and \<open>xs[-1]\<close> on a list.\<close>

definition dict_get :: "('k \<rightharpoonup> 'v) \<Rightarrow> 'k \<Rightarrow> py_error + 'v" where
  "dict_get m k = (case m k of None \<Rightarrow> Inl KeyError | Some v \<Rightarrow> Inr v)"

definition last_item :: "'a list \<Rightarrow> py_error + 'a" where
  "last_item xs = (if xs = [] then Inl IndexError else Inr (last xs))"

text \<open>\<open>self.line2blocks[line][-1]\<close>: the innermost block of a line.\<close>

definition leaf_block :: "TraceCollector \<Rightarrow> int \<Rightarrow> py_error + block" where
  "leaf_block tc line_no =
     (case dict_get (line2blocks tc) line_no of
        Inl e \<Rightarrow> Inl e
      | Inr blocks \<Rightarrow> last_item blocks)"

text \<open>\<open>self.block2cov.get(block, 0)\<close>.\<close>

definition block_hits :: "TraceCollector \<Rightarrow> block \<Rightarrow> int" where
  "block_hits tc b = (case block2cov tc b of None \<Rightarrow> 0 | Some n \<Rightarrow> n)"

text \<open>\<open>get_line_covered_times\<close>, lines 289 and 290.\<close>

definition get_line_covered_times :: "TraceCollector \<Rightarrow> int \<Rightarrow> py_error + int" where
  "get_line_covered_times tc line_no =
     (case leaf_block tc line_no of
        Inl e \<Rightarrow> Inl e
      | Inr b \<Rightarrow> Inr (block_hits tc b))"

text \<open>
  The hit count of a real line, as the target-line check reads it:
  \<open>self.get_line_covered_times(self.real_line2line[line])\<close>.
\<close>

definition real_line_hits :: "TraceCollector \<Rightarrow> int \<Rightarrow> py_error + int" where
  "real_line_hits tc line =
     (case dict_get (real_line2line tc) line of
        Inl e \<Rightarrow> Inl e
      | Inr line_no \<Rightarrow> get_line_covered_times tc line_no)"

text \<open>The list comprehension over \<open>range(target_lines[0], target_lines[1] + 1)\<close>.\<close>

fun lines_cov :: "TraceCollector \<Rightarrow> int list \<Rightarrow> py_error + int list" where
  "lines_cov tc [] = Inr []"
| "lines_cov tc (l # ls) =
     (case real_line_hits tc l of
        Inl e \<Rightarrow> Inl e
      | Inr c \<Rightarrow> (case lines_cov tc ls of Inl e \<Rightarrow> Inl e | Inr cs \<Rightarrow> Inr (c # cs)))"

definition target_lines_cov :: "TraceCollector \<Rightarrow> (int \<times> int) option \<Rightarrow> py_error + int list" where
  "target_lines_cov tc target_lines =
     (case target_lines of
        None \<Rightarrow> Inr []
      | Some (first, final) \<Rightarrow> lines_cov tc [first..final])"

text \<open>\<open>get_real_line_content\<close>, lines 295 and 296.\<close>

definition get_real_line_content :: "TraceCollector \<Rightarrow> int \<Rightarrow> py_error + string" where
  "get_real_line_content tc real_line_no =
     (case dict_get (real_line2line tc) real_line_no of
        Inl e \<Rightarrow> Inl e
      | Inr line_no \<Rightarrow> dict_get (line2code tc) line_no)"

text \<open>
  The inner loop of \<open>collect_trace\<close>, lines 347 to 362, over the real lines of a newly
  covered block: a line counts when it is not blank and the block is its innermost one.
  The accumulator holds \<open>new_covered_lines\<close> and the keys of
  \<open>new_covered_line_contents\<close>.
\<close>

fun count_block_lines ::
  "TraceCollector \<Rightarrow> block \<Rightarrow> int list \<Rightarrow> int \<times> int list \<Rightarrow> py_error + (int \<times> int list)" where
  "count_block_lines tc b [] acc = Inr acc"
| "count_block_lines tc b (real_line # ls) acc =
     (case get_real_line_content tc real_line of
        Inl e \<Rightarrow> Inl e
      | Inr content \<Rightarrow>
          if strip content = [] then count_block_lines tc b ls acc
          else
            (case dict_get (real_line2line tc) real_line of
               Inl e \<Rightarrow> Inl e
             | Inr line_no \<Rightarrow>
                 (case leaf_block tc line_no of
                    Inl e \<Rightarrow> Inl e
                  | Inr leaf \<Rightarrow>
                      if leaf = b then
                        (if real_line \<in> set (snd acc) then Inl AssertionError
                         else (case dict_get (line2code tc) line_no of
                                 Inl e \<Rightarrow> Inl e
                               | Inr code \<Rightarrow>
                                   count_block_lines tc b ls (fst acc + 1, snd acc @ [real_line])))
                      else count_block_lines tc b ls acc)))"

text \<open>
  The loop over the executed blocks, lines 338 to 362. The state of the loop is the
  collector, the accumulator of the inner loop and \<open>GLOBAL_BLOCK_first_covered\<close>. An
  exception leaves the collector as far as it has been updated.
\<close>

fun add_coverage_loop ::
  "TraceCollector \<Rightarrow> block list \<Rightarrow> (int \<times> int list) \<times> bool
     \<Rightarrow> TraceCollector \<times> (py_error + ((int \<times> int list) \<times> bool))" where
  "add_coverage_loop tc [] acc = (tc, Inr acc)"
| "add_coverage_loop tc (b # bs) acc =
     (let prev_cov = block_hits tc b;
          tc1 = tc\<lparr>block2cov := (block2cov tc)(b \<mapsto> prev_cov + 1)\<rparr>
      in if b = GLOBAL_BLOCK then add_coverage_loop tc1 bs (fst acc, prev_cov = 0)
         else if prev_cov = 0 then
           (case dict_get (block2real_lines tc1) b of
              Inl e \<Rightarrow> (tc1, Inl e)
            | Inr real_lines \<Rightarrow>
                (case count_block_lines tc1 b [fst real_lines..snd real_lines] (fst acc) of
                   Inl e \<Rightarrow> (tc1, Inl e)
                 | Inr counted \<Rightarrow> add_coverage_loop tc1 bs (counted, snd acc)))
         else add_coverage_loop tc1 bs acc)"

text \<open>One round of that loop on the hit counts: \<open>self.block2cov[block] = prev_cov + 1\<close>.\<close>

definition bump_block :: "TraceCollector \<Rightarrow> block \<Rightarrow> TraceCollector" where
  "bump_block tc b = tc\<lparr>block2cov := (block2cov tc)(b \<mapsto> block_hits tc b + 1)\<rparr>"

text \<open>
  The coverage update of \<open>collect_trace\<close>, lines 333 to 366, with the assertion that a
  file covered for the first time contributes a newly covered line.
\<close>

definition update_coverage ::
  "TraceCollector \<Rightarrow> block list \<Rightarrow> bool \<Rightarrow> TraceCollector \<times> (py_error + int)" where
  "update_coverage tc executed_blocks add_coverage =
     (if add_coverage then
        (case add_coverage_loop tc executed_blocks ((0, []), False) of
           (tc1, Inl e) \<Rightarrow> (tc1, Inl e)
         | (tc1, Inr acc) \<Rightarrow>
             if snd acc \<and> \<not> fst (fst acc) > 0 then (tc1, Inl AssertionError)
             else (tc1, Inr (fst (fst acc))))
      else (tc, Inr 0))"

text \<open>
  The target-line check, lines 449 to 465: the number of positions where the hit count
  after ingestion exceeds the one before must be positive.
\<close>

definition is_target_lines_covered :: "int list \<Rightarrow> int list \<Rightarrow> bool" where
  "is_target_lines_covered target_cov target_prev_cov =
     (length (filter (\<lambda>p. fst p > snd p) (zip target_cov target_prev_cov)) > 0)"

text \<open>
  \<open>TraceCollector.collect_trace\<close>, lines 307 to 471. Two parts are parameters: \<open>render\<close>
  stands for the summary rendering of lines 385 to 447, which reads the collector and the
  executed blocks and gives the new summary, and \<open>format_summary\<close> for
  \<open>get_last_summary_as_code\<close>; both rest on \<open>format_code\<close> of app/utils/utils.py and on
  float formatting, and either may raise. Neither writes any attribute but \<open>summary\<close>.
  The result is the collector after the call with the returned triple or the exception.
\<close>

definition collect_trace ::
  "(TraceCollector \<Rightarrow> block list \<Rightarrow> py_error + (int \<rightharpoonup> string))
     \<Rightarrow> ((int \<rightharpoonup> string) \<Rightarrow> py_error + string)
     \<Rightarrow> TraceCollector \<Rightarrow> string \<Rightarrow> (int \<times> int) option \<Rightarrow> bool
     \<Rightarrow> TraceCollector \<times> (py_error + (int \<times> bool \<times> string))" where
  "collect_trace render format_summary tc trace_str target_lines add_coverage =
     (case target_lines_cov tc target_lines of
        Inl e \<Rightarrow> (tc, Inl e)
      | Inr target_lines_prev_cov \<Rightarrow>
          (let executed_blocks = get_executed_blocks trace_str
           in case update_coverage tc executed_blocks add_coverage of
                (tc1, Inl e) \<Rightarrow> (tc1, Inl e)
              | (tc1, Inr new_covered_lines) \<Rightarrow>
                  (case render tc1 executed_blocks of
                     Inl e \<Rightarrow> (tc1, Inl e)
                   | Inr summary_dict \<Rightarrow>
                       (let tc2 = tc1\<lparr>last_summary := summary_dict\<rparr>
                        in case target_lines_cov tc2 target_lines of
                             Inl e \<Rightarrow> (tc2, Inl e)
                           | Inr target_cov \<Rightarrow>
                               (let covered =
                                      (if target_lines \<noteq> None
                                       then is_target_lines_covered target_cov target_lines_prev_cov
                                       else True)
                                in case format_summary summary_dict of
                                     Inl e \<Rightarrow> (tc2, Inl e)
                                   | Inr code \<Rightarrow> (tc2, Inr (new_covered_lines, covered, code)))))))"

text \<open>
  Two calls with the same trace, one after the other: an exception of the first call
  ends the sequence.
\<close>

definition collect_trace_twice ::
  "(TraceCollector \<Rightarrow> block list \<Rightarrow> py_error + (int \<rightharpoonup> string))
     \<Rightarrow> ((int \<rightharpoonup> string) \<Rightarrow> py_error + string)
     \<Rightarrow> TraceCollector \<Rightarrow> string
     \<Rightarrow> TraceCollector \<times> (py_error + ((int \<times> bool \<times> string) \<times> (int \<times> bool \<times> string)))" where
  "collect_trace_twice render format_summary tc trace_str =
     (case collect_trace render format_summary tc trace_str None True of
        (tc1, Inl e) \<Rightarrow> (tc1, Inl e)
      | (tc1, Inr first_result) \<Rightarrow>
          (case collect_trace render format_summary tc1 trace_str None True of
             (tc2, Inl e) \<Rightarrow> (tc2, Inl e)
           | (tc2, Inr second_result) \<Rightarrow> (tc2, Inr (first_result, second_result))))"

subsection \<open>Parsing the instrumented source\<close>

text \<open>
  \<open>delete_instrumentation_comments\<close> of app/agents/common.py, lines 184 to 203, on the
  list of source lines: trailing blank lines go, then trailing cost comments.
\<close>

definition is_cost_comment :: "string \<Rightarrow> string \<Rightarrow> bool" where
  "is_cost_comment token l =
     (prefix token (strip l)
      \<and> (str_contains l ''Total cost'' \<or> str_contains l ''Total split cost''
           \<or> str_contains l ''Total instrumented cost''))"

definition delete_instrumentation_comments :: "string \<Rightarrow> string list \<Rightarrow> string list" where
  "delete_instrumentation_comments token source_lines =
     rev (dropWhile (is_cost_comment token)
            (dropWhile (\<lambda>l. strip l = []) (rev source_lines)))"

text \<open>
  The two loops of lines 260 to 271 that move the ends of a block inwards past
  instrumentation lines.
\<close>

function skip_start :: "TraceCollector \<Rightarrow> int \<Rightarrow> int \<Rightarrow> py_error + int" where
  "skip_start tc new_start new_end =
     (if new_start < size_lines tc \<and> new_start < new_end then
        (case leaf_block tc new_start of
           Inl e \<Rightarrow> Inl e
         | Inr b \<Rightarrow>
             if b = INSTRUMENT_BLOCK then skip_start tc (new_start + 1) new_end
             else Inr new_start)
      else Inr new_start)"
  by pat_completeness auto
termination
  by (relation "measure (\<lambda>(tc, new_start, new_end). nat (new_end - new_start))") auto

function skip_end :: "TraceCollector \<Rightarrow> int \<Rightarrow> int \<Rightarrow> py_error + int" where
  "skip_end tc new_start new_end =
     (if new_end > 1 \<and> new_start < new_end then
        (case leaf_block tc new_end of
           Inl e \<Rightarrow> Inl e
         | Inr b \<Rightarrow>
             if b = INSTRUMENT_BLOCK then skip_end tc new_start (new_end - 1)
             else Inr new_end)
      else Inr new_end)"
  by pat_completeness auto
termination
  by (relation "measure (\<lambda>(tc, new_start, new_end). nat (new_end - new_start))") auto

text \<open>
  One round of the loop of \<open>_parse_source_code_to_blocks\<close>, lines 226 to 283, for line
  \<open>i\<close>. The state is the stack of open blocks, the keys of \<open>block2real_lines\<close> in the
  order of insertion, and the collector. The two-element lists of the source are pairs.
\<close>

definition parse_line ::
  "block list \<times> block list \<times> TraceCollector \<Rightarrow> int \<times> string
     \<Rightarrow> py_error + (block list \<times> block list \<times> TraceCollector)" where
  "parse_line state numbered_line =
     (let block_id_stack = fst state; entered = fst (snd state); tc = snd (snd state);
          i = fst numbered_line
      in case match_marker (strip (snd numbered_line)) of
           Some m \<Rightarrow>
             (let cnt = instrumentation_cnt tc + 1;
                  block_id = (fst (snd m), snd (snd m));
                  tc1 = tc\<lparr>instrumentation_cnt := cnt,
                           line2blocks := (line2blocks tc)(i \<mapsto> [INSTRUMENT_BLOCK])\<rparr>
              in if fst m = ''enter'' then
                   Inr (block_id_stack @ [block_id], set_add block_id entered,
                        tc1\<lparr>block2lines := (block2lines tc1)(block_id \<mapsto> (i + 1, i + 1)),
                            block2real_lines :=
                              (block2real_lines tc1)(block_id \<mapsto> (i + 1 - cnt, i + 1 - cnt))\<rparr>)
                 else if block_id_stack = [] then Inl IndexError
                 else
                   (case dict_get (block2lines tc1) block_id of
                      Inl e \<Rightarrow> Inl e
                    | Inr lines \<Rightarrow>
                        (case dict_get (block2real_lines tc1) block_id of
                           Inl e \<Rightarrow> Inl e
                         | Inr real_lines \<Rightarrow>
                             (case skip_start tc1 (fst lines) (i - 1) of
                                Inl e \<Rightarrow> Inl e
                              | Inr new_start \<Rightarrow>
                                  (case skip_end tc1 new_start (i - 1) of
                                     Inl e \<Rightarrow> Inl e
                                   | Inr new_end \<Rightarrow>
                                       Inr (butlast block_id_stack, entered,
                                            tc1\<lparr>block2lines :=
                                                  (block2lines tc1)(block_id \<mapsto> (new_start, new_end)),
                                                block2real_lines :=
                                                  (block2real_lines tc1)
                                                    (block_id \<mapsto> (fst real_lines, i - 1 - (cnt - 1)))\<rparr>))))))
         | None \<Rightarrow>
             Inr (block_id_stack, entered,
                  tc\<lparr>real_line2line := (real_line2line tc)(i - instrumentation_cnt tc \<mapsto> i),
                     line2blocks := (line2blocks tc)(i \<mapsto> block_id_stack)\<rparr>))"

fun parse_lines ::
  "block list \<times> block list \<times> TraceCollector \<Rightarrow> (int \<times> string) list
     \<Rightarrow> py_error + (block list \<times> block list \<times> TraceCollector)" where
  "parse_lines state [] = Inr state"
| "parse_lines state (l # ls) =
     (case parse_line state l of
        Inl e \<Rightarrow> Inl e
      | Inr state1 \<Rightarrow> parse_lines state1 ls)"

text \<open>
  The check at the end of \<open>__init__\<close>, lines 55 to 59: the ends of every block in the
  real view map to its ends in the instrumented file.
\<close>

fun check_blocks :: "TraceCollector \<Rightarrow> block list \<Rightarrow> py_error + unit" where
  "check_blocks tc [] = Inr ()"
| "check_blocks tc (b # bs) =
     (case dict_get (block2real_lines tc) b of
        Inl e \<Rightarrow> Inl e
      | Inr real_lines \<Rightarrow>
          (case dict_get (block2lines tc) b of
             Inl e \<Rightarrow> Inl e
           | Inr lines \<Rightarrow>
               (case dict_get (real_line2line tc) (fst real_lines) of
                  Inl e \<Rightarrow> Inl e
                | Inr line_start \<Rightarrow>
                    if fst lines \<noteq> line_start then Inl AssertionError
                    else
                      (case dict_get (real_line2line tc) (snd real_lines) of
                         Inl e \<Rightarrow> Inl e
                       | Inr line_end \<Rightarrow>
                           if snd lines \<noteq> line_end then Inl AssertionError
                           else check_blocks tc bs))))"

text \<open>
  \<open>TraceCollector.__init__\<close>, lines 23 to 59, from the lines of the file as
  \<open>load_code_from_file\<close> gives them. The comment token of the language and the number of
  leading copyright lines (\<open>_count_copyright_comments\<close>, read by the summary rendering
  only) are arguments.
\<close>

definition new_TraceCollector ::
  "string \<Rightarrow> string \<Rightarrow> int \<Rightarrow> string list \<Rightarrow> py_error + TraceCollector" where
  "new_TraceCollector path token copyright_lines source_lines =
     (let code_lines = delete_instrumentation_comments token source_lines;
          n = int (length code_lines);
          tc0 = \<lparr>file_path = path, comment_token = token,
                 line2code = map_of (zip [1..n] code_lines),
                 begin_copyright_lines = copyright_lines, line2blocks = Map.empty,
                 block2cov = Map.empty, block2lines = Map.empty, block2real_lines = Map.empty,
                 real_line2line = Map.empty, size_lines = n, instrumentation_cnt = 0,
                 last_summary = Map.empty\<rparr>
      in case parse_lines ([GLOBAL_BLOCK], [], tc0) (zip [1..n] code_lines) of
           Inl e \<Rightarrow> Inl e
         | Inr state \<Rightarrow>
             (case check_blocks (snd (snd state)) (fst (snd state)) of
                Inl e \<Rightarrow> Inl e
              | Inr u \<Rightarrow> Inr (snd (snd state))))"

section \<open>The coverage registry (app/agents/coverage.py)\<close>

record Coverage =
  file2cov :: "string \<rightharpoonup> TraceCollector"

text \<open>
  \<open>Coverage.get_file_coverage\<close>, lines 37 to 49. \<open>new_collector\<close> stands for the
  constructor \<open>TraceCollector(file_path)\<close>, which reads the file, and \<open>normpath\<close> for
  \<open>os.path.normpath\<close>.
\<close>

definition get_file_coverage ::
  "(string \<Rightarrow> py_error + TraceCollector) \<Rightarrow> (string \<Rightarrow> string) \<Rightarrow> Coverage \<Rightarrow> string
     \<Rightarrow> Coverage \<times> (py_error + TraceCollector)" where
  "get_file_coverage new_collector normpath cov path =
     (let p = normpath path
      in case file2cov cov p of
           Some tc \<Rightarrow> (cov, Inr tc)
         | None \<Rightarrow>
             (case new_collector p of
                Inl e \<Rightarrow> (cov, Inl e)
              | Inr tc \<Rightarrow> (cov\<lparr>file2cov := (file2cov cov)(p \<mapsto> tc)\<rparr>, Inr tc)))"

text \<open>
  \<open>Coverage.collect_trace\<close>, lines 51 to 80. The collector is an object of the registry:
  what the call changes in it is stored back under its path. A collector object is
  always true, so the final \<open>else\<close> of the source is never taken.
\<close>

definition Coverage_collect_trace ::
  "(string \<Rightarrow> py_error + TraceCollector) \<Rightarrow> (string \<Rightarrow> string)
     \<Rightarrow> (TraceCollector \<Rightarrow> block list \<Rightarrow> py_error + (int \<rightharpoonup> string))
     \<Rightarrow> ((int \<rightharpoonup> string) \<Rightarrow> py_error + string)
     \<Rightarrow> Coverage \<Rightarrow> string \<Rightarrow> string \<Rightarrow> (int \<times> int) option \<Rightarrow> bool
     \<Rightarrow> Coverage \<times> (py_error + (int \<times> bool \<times> string))" where
  "Coverage_collect_trace new_collector normpath render format_summary cov path trace_str
      target_lines add_coverage =
     (if target_lines \<noteq> None \<and> \<not> add_coverage then (cov, Inl AssertionError)
      else
        (case get_file_coverage new_collector normpath cov (normpath path) of
           (cov1, Inl e) \<Rightarrow> (cov1, Inl e)
         | (cov1, Inr tc) \<Rightarrow>
             (case collect_trace render format_summary tc trace_str target_lines add_coverage of
                (tc1, r) \<Rightarrow>
                  (cov1\<lparr>file2cov := (file2cov cov1)(normpath (normpath path) \<mapsto> tc1)\<rparr>, r))))"

section \<open>The \<open>solve_with_smt\<close> tool (app/agents/tools/smt_solver.py)\<close>

subsection \<open>Text preparation\<close>

text \<open>\<open>s.find(c)\<close> for a character and \<open>s.rfind(needle)\<close>: an index, or \<open>-1\<close>.\<close>

fun find_char :: "char \<Rightarrow> string \<Rightarrow> int" where
  "find_char c [] = - 1"
| "find_char c (x # xs) =
     (if x = c then 0 else (let r = find_char c xs in if r < 0 then - 1 else r + 1))"

fun rfind_str :: "string \<Rightarrow> string \<Rightarrow> int" where
  "rfind_str needle [] = (if needle = [] then 0 else - 1)"
| "rfind_str needle (x # xs) =
     (let r = rfind_str needle xs
      in if r \<ge> 0 then r + 1 else if prefix needle (x # xs) then 0 else - 1)"

text \<open>Removal of the markdown fence, lines 109 to 119.\<close>

definition strip_code_fence :: "string \<Rightarrow> string" where
  "strip_code_fence s =
     (if prefix ''```'' s then
        (let first_line_end = find_char CHR 0x0A s;
             s1 = (if first_line_end > 0 then drop (nat (first_line_end + 1)) s else s);
             end_marker = rfind_str ''```'' s1
         in if end_marker > 0 then take (nat end_marker) s1 else s1)
      else s)"

text \<open>
  The test for the direct dialect, lines 129 to 159: there is a line that is neither
  blank nor a comment, and every such line starts with \<open>z3.\<close>, a bracket, a comma or an
  operator.
\<close>

definition format1_prefixes :: "string list" where
  "format1_prefixes =
     [''z3.'', ''('', '')'', '','', ''&&'', ''||'', ''and '', ''or '', ''+'', ''-'', ''*'', ''/'',
      ''=='', ''!='', ''<'', ''>'']"

definition is_code_line :: "string \<Rightarrow> bool" where
  "is_code_line l = (strip l \<noteq> [] \<and> \<not> prefix ''#'' (strip l))"

definition is_format1 :: "string list \<Rightarrow> bool" where
  "is_format1 ls =
     (let non_empty_lines = map strip (filter is_code_line ls)
      in non_empty_lines \<noteq> []
         \<and> list_all (\<lambda>l. list_ex (\<lambda>p. prefix p (strip l)) format1_prefixes) non_empty_lines)"

text \<open>
  Lines 168 to 173: a line is dropped when its stripped text starts with \<open>import\<close> or
  \<open>from\<close>.
\<close>

definition is_import_line :: "string \<Rightarrow> bool" where
  "is_import_line l = (prefix ''import'' (strip l) \<or> prefix ''from'' (strip l))"

definition strip_imports :: "string list \<Rightarrow> string list" where
  "strip_imports ls = filter (\<lambda>l. \<not> is_import_line l) ls"

text \<open>\<open>len(line) - len(line.lstrip())\<close>.\<close>

definition leading_spaces :: "string \<Rightarrow> nat" where
  "leading_spaces l = length l - length (lstrip l)"

text \<open>
  Lines 176 to 212. The indentation that is removed is the least one that is not zero
  among the lines that are neither blank nor comments (\<open>0\<close> when none is indented); it is
  cut from every line that is not blank and is indented at least that far.
\<close>

definition min_indent :: "string list \<Rightarrow> nat" where
  "min_indent code_lines =
     (let indents = filter (\<lambda>n. n > 0) (map leading_spaces (filter is_code_line code_lines))
      in if indents = [] then 0 else fold min (tl indents) (hd indents))"

definition fix_indentation :: "string list \<Rightarrow> string list" where
  "fix_indentation code_lines =
     (let m = min_indent code_lines
      in if m > 0
         then map (\<lambda>l. if strip l \<noteq> [] \<and> leading_spaces l \<ge> m then drop m l else l) code_lines
         else code_lines)"

definition prepare_code_block :: "string list \<Rightarrow> string" where
  "prepare_code_block ls = join NL (fix_indentation (strip_imports ls))"




subsection \<open>The solver\<close>

text \<open>
  A value of the Z3 model, as lines 255 to 266 classify it: an integer, an algebraic
  number (given by the text of its float approximation), a truth value, or another
  value (given by its text).
\<close>

datatype z3_value =
    IntValue int
  | AlgebraicValue string
  | BoolValue bool
  | OtherValue string

datatype z3_result =
    Sat "(string \<times> z3_value) list"
  | Unsat
  | Unknown string

text \<open>
  What running Python code from the handler comes to: the code returns a value, or it
  raises an \<open>Exception\<close> (given by its message \<open>str(e)\<close>), or control does not come
  back to the handler: the code raises an exception outside \<open>Exception\<close> (\<open>SystemExit\<close>,
  \<open>KeyboardInterrupt\<close>), which no \<open>except Exception\<close> clause of the handler catches, or
  it does not terminate.
\<close>

datatype 'a py_outcome =
    Returned 'a
  | Raised string
  | Escaped

text \<open>
  What the handler takes from Python and from Z3: \<open>eval\<close> of an expression and \<open>exec\<close>
  of a block with the module \<open>z3\<close> in scope (the result of \<open>exec\<close> is the dictionary of
  local variables), the test \<open>isinstance(_, z3.BoolRef)\<close>, and the solver with its
  timeout of 10 seconds: \<open>solver.add\<close>, \<open>solver.check\<close>, and the declarations of the
  model with their values or the reason for \<open>unknown\<close> (an exception is its message).
  \<open>'c\<close> is the type of Python objects.
\<close>

record 'c smt_externals =
  py_eval :: "string \<Rightarrow> 'c py_outcome"
  py_exec :: "string \<Rightarrow> (string \<rightharpoonup> 'c) py_outcome"
  is_BoolRef :: "'c \<Rightarrow> bool"
  z3_check :: "'c \<Rightarrow> string + z3_result"

definition str_of_z3_value :: "z3_value \<Rightarrow> string" where
  "str_of_z3_value v =
     (case v of
        IntValue i \<Rightarrow> str_int i
      | AlgebraicValue t \<Rightarrow> t
      | BoolValue b \<Rightarrow> (if b then ''True'' else ''False'')
      | OtherValue t \<Rightarrow> t)"

text \<open>\<open>s.lower()\<close> on the letters A to Z.\<close>

definition lower_char :: "char \<Rightarrow> char" where
  "lower_char c = (let n = (of_char c :: nat) in if 65 \<le> n \<and> n \<le> 90 then char_of (n + 32) else c)"

definition lower :: "string \<Rightarrow> string" where
  "lower s = map lower_char s"

text \<open>The dictionary \<open>variables\<close> of lines 250 to 266, filled in the order of the model.\<close>

definition model_variables :: "(string \<times> z3_value) list \<Rightarrow> (string \<times> z3_value) list" where
  "model_variables model = foldl (\<lambda>d x. dict_set (fst x) (snd x) d) [] model"

text \<open>Lines 268 to 272: one line per variable, sorted by name.\<close>

definition solution_lines :: "(string \<times> z3_value) list \<Rightarrow> string list" where
  "solution_lines model =
     (let variables = model_variables model
      in map (\<lambda>var. var @ '' = '' @ str_of_z3_value (the (map_of variables var)))
           (sort (map fst variables)))"

text \<open>
  Lines 240 to 289 for a constraint: the pair of \<open>result_str\<close> and \<open>err_msg\<close> at the end
  of the \<open>try\<close> statement.
\<close>

definition solve_constraint :: "'c smt_externals \<Rightarrow> 'c \<Rightarrow> string \<times> string" where
  "solve_constraint ext constraint =
     (case z3_check ext constraint of
        Inl msg \<Rightarrow> ([], ''Z3 solving error:'' @ NL @ '' '' @ msg)
      | Inr (Sat model) \<Rightarrow> (join NL (solution_lines model), [])
      | Inr Unsat \<Rightarrow> ([], ''Constraints unsatisfiable.'')
      | Inr (Unknown reason) \<Rightarrow>
          ([], if str_contains (lower reason) ''timeout'' \<or> str_contains (lower reason) ''canceled''
               then ''Solver timeout (10 seconds).''
               else ''Solver could not determine result. Reason: '' @ reason))"

text \<open>
  The code-block dialect, lines 165 to 238: the error message, or the constraint bound
  to \<open>final_constraint\<close>; \<open>None\<close> when control does not come back from \<open>exec\<close>.
\<close>

definition run_code_block :: "'c smt_externals \<Rightarrow> string list \<Rightarrow> (string + 'c) option" where
  "run_code_block ext ls =
     (case py_exec ext (prepare_code_block ls) of
        Escaped \<Rightarrow> None
      | Raised msg \<Rightarrow> Some (Inl (''Error executing provided code block: '' @ msg))
      | Returned local_vars \<Rightarrow>
          Some (case local_vars ''final_constraint'' of
                  None \<Rightarrow>
                    Inl ''Missing required 'final_constraint' variable in code block. You must assign your final constraint to 'final_constraint'.''
                | Some constraint \<Rightarrow>
                    if \<not> is_BoolRef ext constraint
                    then Inl ''The 'final_constraint' variable must be a Z3 boolean expression.''
                    else Inr constraint))"

text \<open>
  \<open>process_smt_solver\<close>, lines 81 to 296: the returned pair of observation and success
  flag, or \<open>None\<close> when control does not come back from \<open>eval\<close> or \<open>exec\<close>. An early
  \<open>return err_msg, False\<close> gives what the end of the function gives for an empty
  \<open>result_str\<close>.
\<close>

definition process_smt_solver ::
  "'c smt_externals \<Rightarrow> string option \<Rightarrow> (string \<times> bool) option" where
  "process_smt_solver ext smt_constraints =
     (case smt_constraints of
        None \<Rightarrow>
          Some (''Error: `smt_constraints` is not provided or it is empty. Please provide a valid `smt_constraints`.'',
                False)
      | Some given \<Rightarrow>
          if given = [] \<or> strip given = [] then
            Some (''Error: `smt_constraints` is not provided or it is empty. Please provide a valid `smt_constraints`.'',
                  False)
          else
            (let constraints = strip (strip_code_fence (strip given));
                 ls = split_on CHR 0x0A constraints;
                 outcome =
                   (if is_format1 ls then
                      (case py_eval ext constraints of
                         Escaped \<Rightarrow> None
                       | Raised msg \<Rightarrow> Some ([], ''Z3 solving error:'' @ NL @ '' '' @ msg)
                       | Returned constraint \<Rightarrow> Some (solve_constraint ext constraint))
                    else
                      (case run_code_block ext ls of
                         None \<Rightarrow> None
                       | Some (Inl err_msg) \<Rightarrow> Some ([], err_msg)
                       | Some (Inr constraint) \<Rightarrow> Some (solve_constraint ext constraint)))
             in case outcome of
                  None \<Rightarrow> None
                | Some result \<Rightarrow>
                    Some (if fst result \<noteq> [] then (fst result, True)
                          else (snd result, False))))"


section \<open>Example inputs\<close>

text \<open>
  Modelled from the spec: \<open>estimate_text_token\<close> of app/utils/utils.py is not among the
  sources at hand; the specification says that tokens are estimated at about 3.5
  characters each. It is used for the concrete examples only.
\<close>

definition estimate_by_length :: "string \<Rightarrow> rat" where
  "estimate_by_length s = rat_of_nat (length s) / (7 / 2)"

text \<open>
  A finished case that reached its target without new coverage and was never selected;
  its trace enters one block of the function \<open>main\<close> of the file f.c.
\<close>

definition covered_case :: "unit TestCase" where
  "covered_case = (default_fields ''2025-01-01 00:00:00.000'' () 1)
     \<lparr>src_id := Some 0, states := [SELECT, SUMMARIZE, SOLVE, EXECUTE, FINISHED],
      is_target_covered := True, is_satisfiable := True, exec_code := Some ''pass'',
      execution_trace := Some ''[f.c] enter main 1'',
      target_path_constraint := Some ''x > 5''\<rparr>"

text \<open>
  A seed whose input program is 400000 characters long, selected \<open>sel\<close> times. Its
  trace is empty, so its function call chain is the empty text.
\<close>

definition big_case :: "int \<Rightarrow> int \<Rightarrow> unit TestCase" where
  "big_case i sel = (default_fields ''2025-01-01 00:00:00.000'' () i)
     \<lparr>time_taken := Some 0, states := [FINISHED], is_target_covered := True, new_coverage := True,
      newly_covered_lines := 1, selected_cnt := sel,
      exec_code := Some (replicate 400000 CHR ''#''), execution_trace := Some []\<rparr>"

definition one_big :: "unit TestCaseManager" where
  "one_big = \<lparr>out_dir = ''out'',
     test_cases = [(0, (big_case 0 0)\<lparr>exec_code := Some (replicate 700000 CHR ''#'')\<rparr>)],
     next_testcase_id = 1\<rparr>"

definition two_big :: "unit TestCaseManager" where
  "two_big = \<lparr>out_dir = ''out'', test_cases = [(0, big_case 0 1), (1, big_case 1 0)],
     next_testcase_id = 2\<rparr>"

text \<open>
  A small instrumented file and the collector that \<open>TraceCollector.__init__\<close> builds
  for it (lemma \<open>example_collector_parsed\<close>).
\<close>

definition example_source :: "string list" where
  "example_source =
     [''int main() {'', ''  // enter main 1'', ''  return 0;'', ''  // exit main 1'', ''}'']"

definition example_collector :: TraceCollector where
  "example_collector =
     \<lparr>file_path = ''main.c'', comment_token = ''//'',
      line2code = map_of (zip [1..5] example_source),
      begin_copyright_lines = 0,
      line2blocks = map_of [(1, [GLOBAL_BLOCK]), (2, [INSTRUMENT_BLOCK]),
                            (3, [GLOBAL_BLOCK, (''main'', 1)]), (4, [INSTRUMENT_BLOCK]),
                            (5, [GLOBAL_BLOCK])],
      block2cov = Map.empty,
      block2lines = map_of [((''main'', 1), (3, 3))],
      block2real_lines = map_of [((''main'', 1), (2, 2))],
      real_line2line = map_of [(1, 1), (2, 3), (3, 5)],
      size_lines = 5, instrumentation_cnt = 2, last_summary = Map.empty\<rparr>"

text \<open>A summary rendering that always succeeds, for the examples.\<close>

definition plain_render :: "TraceCollector \<Rightarrow> block list \<Rightarrow> py_error + (int \<rightharpoonup> string)" where
  "plain_render tc executed_blocks = Inr Map.empty"

definition plain_format :: "(int \<rightharpoonup> string) \<Rightarrow> py_error + string" where
  "plain_format summary_dict = Inr []"

definition example_trace :: string where
  "example_trace = ''enter main 1'' @ NL @ ''exit main 1''"

text \<open>External parts for the examples: a YAML layer that writes nothing useful.\<close>

definition plain_externals :: "unit externals" where
  "plain_externals =
     \<lparr>yaml_dump = (\<lambda>data. Some []), yaml_load = (\<lambda>content. Inr None),
      usage_empty = (\<lambda>u. False), format_usage = (\<lambda>u. ''TOTAL: {}''),
      parse_usage = (\<lambda>t. Some ()), empty_usage = (), default_usage = (),
      time_now = 0, created_now = ''2025-01-01 00:00:00.000''\<rparr>"

text \<open>
  An evaluator and a solver that accept every expression and answer \<open>sat\<close> with a model
  that declares nothing, as Z3 does for \<open>z3.BoolVal(True)\<close>.
\<close>

definition trivial_sat_externals :: "unit smt_externals" where
  "trivial_sat_externals =
     \<lparr>py_eval = (\<lambda>s. Returned ()), py_exec = (\<lambda>s. Returned Map.empty),
      is_BoolRef = (\<lambda>c. True),
      z3_check = (\<lambda>c. Inr (Sat []))\<rparr>"





text \<open>
  A finished case whose target file has a colon in its path, and a YAML layer that reads
  back the dictionary of that case.
\<close>

definition colon_case :: "unit TestCase" where
  "colon_case = (default_fields ''2025-01-01 00:00:00.000'' () 7)
     \<lparr>src_id := Some 0, time_taken := Some 12,
      states := [SELECT, SUMMARIZE, SOLVE, EXECUTE, FINISHED],
      target_file_lines := (Some ''src/a:b.c'', (Some 1, Some 2)),
      tc_out_dir := Some ''out''\<rparr>"

definition echo_yaml :: "unit externals" where
  "echo_yaml = plain_externals
     \<lparr>yaml_dump := (\<lambda>data. Some ''id: 7''),
      yaml_load := (\<lambda>content. Inr (Some (to_dict (\<lambda>u. False) (\<lambda>u. ''TOTAL: {}'') colon_case)))\<rparr>"

section \<open>Properties\<close>

subsection \<open>C7: acceptance by \<open>process_solution\<close>\<close>


text \<open>
  C7. \<open>process_solution\<close> answers \<open>Solution accepted.\<close> and records the program exactly
  when \<open>is_satisfiable\<close> is the boolean true, the program text contains
  \<open>def execute_program\<close>, and the smoke run with the timeout of 2 seconds reports success.
  When \<open>is_satisfiable\<close> is false the answer is the UNSATISFIABLE acknowledgement without a
  program, and whenever the answer is not the acceptance no program is recorded.
\<close>

theorem process_solution_accepts_iff:
  "(process_solution run_target sat_arg program
      = (''Solution accepted.'', True, Some code)
    \<longleftrightarrow> sat_arg = ArgBool True \<and> program = Some code
        \<and> str_contains code ''def execute_program'' \<and> exec_success (run_target code 2))
   \<and> (fst (process_solution run_target sat_arg program) = ''Solution accepted.''
    \<longleftrightarrow> (\<exists>code. sat_arg = ArgBool True \<and> program = Some code
        \<and> str_contains code ''def execute_program'' \<and> exec_success (run_target code 2)))
   \<and> (sat_arg = ArgBool False \<longrightarrow>
        process_solution run_target sat_arg program
          = (''UNSATISFIABLE constraints acknowledged.'', False, None))
   \<and> (fst (process_solution run_target sat_arg program) \<noteq> ''Solution accepted.''
        \<longrightarrow> snd (snd (process_solution run_target sat_arg program)) = None)"
  by (cases sat_arg; cases program)
     (auto simp: process_solution_def Let_def split: bool.splits)

theorem process_solution_accepts_iff_witness:
  "process_solution (\<lambda>code timeout. \<lparr>exec_success = True, exec_error = None\<rparr>)
      (ArgBool True) (Some ''def execute_program(timeout): return (str(), 0)'')
     = (''Solution accepted.'', True, Some ''def execute_program(timeout): return (str(), 0)'')
   \<and> process_solution (\<lambda>code timeout. \<lparr>exec_success = True, exec_error = None\<rparr>)
      (ArgBool False) (Some ''def execute_program(timeout): return (str(), 0)'')
     = (''UNSATISFIABLE constraints acknowledged.'', False, None)"
  using process_solution_accepts_iff
    [of "\<lambda>code timeout. \<lparr>exec_success = True, exec_error = None\<rparr>" "ArgBool True"
        "Some ''def execute_program(timeout): return (str(), 0)''"
        "''def execute_program(timeout): return (str(), 0)''"]
    process_solution_accepts_iff
    [of "\<lambda>code timeout. \<lparr>exec_success = True, exec_error = None\<rparr>" "ArgBool False"
        "Some ''def execute_program(timeout): return (str(), 0)''" "[]"]
  by (simp add: prefix_def)


subsection \<open>C9: seed test cases\<close>

lemma map_of_dict_set: "map_of (dict_set k v xs) k = Some v"
  by (induction xs) auto

lemma create_initial_fields:
  assumes "create_initial ext i code trace summary n dir d = Inr (tc, d')"
  shows "src_id tc = None \<and> states tc = [FINISHED] \<and> new_coverage tc \<and> is_target_covered tc
     \<and> 0 < n \<and> newly_covered_lines tc = n \<and> tc_id tc = i"
  using assms
  by (auto simp: create_initial_def new_TestCase_def default_fields_def Let_def
      split: if_splits option.splits sum.splits)

text \<open>
  C9. A test case returned by \<open>TestCase.create_initial\<close> or by
  \<open>TestCaseManager.add_initial_testcase\<close> has no source id, the state list \<open>[FINISHED]\<close>,
  \<open>new_coverage\<close> and \<open>is_target_covered\<close> set, and was created with
  \<open>newly_covered_lines > 0\<close>; the manager stores it under the id it had next. Without
  \<open>newly_covered_lines > 0\<close> both raise \<open>AssertionError\<close>.
\<close>

theorem seed_testcase_invariant:
  "(create_initial ext i code trace summary n dir d = Inr (tc, d') \<longrightarrow>
      src_id tc = None \<and> states tc = [FINISHED] \<and> new_coverage tc \<and> is_target_covered tc
      \<and> 0 < n \<and> newly_covered_lines tc = n)
   \<and> (add_initial_testcase ext mgr code trace summary n save_now d = Inr (tc, mgr', d') \<longrightarrow>
      src_id tc = None \<and> states tc = [FINISHED] \<and> new_coverage tc \<and> is_target_covered tc
      \<and> 0 < n \<and> newly_covered_lines tc = n
      \<and> get_testcase mgr' (next_testcase_id mgr) = Some tc)
   \<and> (\<not> 0 < n \<longrightarrow>
      create_initial ext i code trace summary n dir d = Inl AssertionError
      \<and> add_initial_testcase ext mgr code trace summary n save_now d = Inl AssertionError)"
proof -
  have p1: "src_id tc = None \<and> states tc = [FINISHED] \<and> new_coverage tc \<and> is_target_covered tc
      \<and> 0 < n \<and> newly_covered_lines tc = n"
    if "create_initial ext i code trace summary n dir d = Inr (tc, d')"
    using create_initial_fields[OF that] by simp
  have p2: "src_id tc = None \<and> states tc = [FINISHED] \<and> new_coverage tc \<and> is_target_covered tc
      \<and> 0 < n \<and> newly_covered_lines tc = n
      \<and> get_testcase mgr' (next_testcase_id mgr) = Some tc"
    if a: "add_initial_testcase ext mgr code trace summary n save_now d = Inr (tc, mgr', d')"
  proof -
    from a obtain d1 where
      c: "create_initial ext (next_testcase_id mgr) code trace summary n (Some (out_dir mgr)) d
            = Inr (tc, d1)"
      and m: "test_cases mgr' = dict_set (next_testcase_id mgr) tc (test_cases mgr)"
      by (auto simp: add_initial_testcase_def Let_def split: sum.splits if_splits prod.splits)
    from create_initial_fields[OF c] m show ?thesis
      by (simp add: get_testcase_def map_of_dict_set)
  qed
  have p3: "create_initial ext i code trace summary n dir d = Inl AssertionError
      \<and> add_initial_testcase ext mgr code trace summary n save_now d = Inl AssertionError"
    if "\<not> 0 < n"
    using that by (simp add: add_initial_testcase_def create_initial_def)
  from p1 p2 p3 show ?thesis by blast
qed

theorem seed_testcase_invariant_witness:
  "(case add_initial_testcase plain_externals
           \<lparr>out_dir = ''out'', test_cases = [], next_testcase_id = 0\<rparr>
           ''print(1)'' ''enter main 1'' ''summary'' 3 True Map.empty of
      Inl e \<Rightarrow> False
    | Inr (tc, mgr', d') \<Rightarrow>
        src_id tc = None \<and> states tc = [FINISHED] \<and> new_coverage tc \<and> is_target_covered tc
        \<and> get_testcase mgr' 0 = Some tc \<and> d' ''out/queue/id:000000.yaml'' = Some [])
   \<and> create_initial plain_externals 0 ''print(1)'' ''enter main 1'' ''summary'' 0 None Map.empty
       = Inl AssertionError"
proof -
  obtain tc mgr' d' where
    r: "add_initial_testcase plain_externals
          \<lparr>out_dir = ''out'', test_cases = [], next_testcase_id = 0\<rparr>
          ''print(1)'' ''enter main 1'' ''summary'' 3 True Map.empty = Inr (tc, mgr', d')"
    and f: "d' ''out/queue/id:000000.yaml'' = Some []"
    by (simp add: add_initial_testcase_def create_initial_def plain_externals_def
        save_to_disk_def new_TestCase_def default_fields_def Let_def path_join_def
        yaml_filename_def fmt_06d_def zfill_def digit_char_def eval_nat_numeral)
  from seed_testcase_invariant
    [of plain_externals 0 "''print(1)''" "''enter main 1''" "''summary''" 0 None Map.empty tc d'
        "\<lparr>out_dir = ''out'', test_cases = [], next_testcase_id = 0\<rparr>" True mgr']
  have e: "create_initial plain_externals 0 ''print(1)'' ''enter main 1'' ''summary'' 0 None
             Map.empty = Inl AssertionError"
    by simp
  from seed_testcase_invariant
    [of plain_externals 0 "''print(1)''" "''enter main 1''" "''summary''" 3 None Map.empty tc d'
        "\<lparr>out_dir = ''out'', test_cases = [], next_testcase_id = 0\<rparr>" True mgr'] r f e
  show ?thesis by simp
qed

subsection \<open>C1: the scheduling weight\<close>

text \<open>
  C1 fails on the code. For a valuable case without new coverage the returned weight is
  \<open>0\<close>, whatever its selection history: the case below reached its target, gave no new
  coverage and was never selected, so the formula of the claim gives \<open>1\<close>, and
  \<open>get_test_case_scheduling_information\<close> returns \<open>0\<close>.
\<close>

theorem scheduling_weight_without_new_coverage:
  "map_sum id snd
     (get_test_case_scheduling_information (\<lambda>trace. Inr ''f.c[main (50%)][50%]'') (\<lambda>r. ''0.0%'')
        \<lparr>out_dir = ''out'', test_cases = [(1, covered_case)], next_testcase_id = 2\<rparr> 1)
     = Inr 0
   \<and> is_valuable covered_case \<and> spec_weight covered_case = 1"
  by (simp add: get_test_case_scheduling_information_def get_testcase_def covered_case_def
      default_fields_def get_historical_information_def is_valuable_def spec_weight_def
      spec_failure_ratio_def)

subsection \<open>C4: the token budget of the scheduling view\<close>

lemma dict_set_fresh: "k \<notin> fst ` set d \<Longrightarrow> dict_set k v d = d @ [(k, v)]"
  by (induction d) auto

lemma dict_of_infos_acc:
  "distinct (map fst d @ map (\<lambda>x. snd (snd x)) xs) \<Longrightarrow>
   foldl (\<lambda>d x. dict_set (snd (snd x)) (fst x) d) d xs = d @ map (\<lambda>x. (snd (snd x), fst x)) xs"
proof (induction xs arbitrary: d)
  case Nil
  then show ?case by simp
next
  case (Cons x xs)
  have fresh: "snd (snd x) \<notin> fst ` set d" using Cons.prems by auto
  have "distinct (map fst (d @ [(snd (snd x), fst x)]) @ map (\<lambda>x. snd (snd x)) xs)"
    using Cons.prems by auto
  from Cons.IH[OF this] show ?case by (simp add: dict_set_fresh[OF fresh])
qed

lemma dict_of_infos_distinct:
  "distinct (map (\<lambda>x. snd (snd x)) xs) \<Longrightarrow> dict_of_infos xs = map (\<lambda>x. (snd (snd x), fst x)) xs"
  using dict_of_infos_acc[of "[]" xs] by (simp add: dict_of_infos_def)

lemma collect_valuable_ids:
  "collect_valuable cc fp mgr items = Inr infos \<Longrightarrow>
   set (map (\<lambda>x. snd (snd x)) infos) \<subseteq> set (map fst items)
   \<and> (distinct (map fst items) \<longrightarrow> distinct (map (\<lambda>x. snd (snd x)) infos))"
proof (induction items arbitrary: infos)
  case Nil
  then show ?case by simp
next
  case (Cons p items)
  obtain i tc where p: "p = (i, tc)" by (cases p)
  show ?case
  proof (cases "is_valuable tc")
    case False
    with Cons p show ?thesis by auto
  next
    case True
    with Cons.prems p obtain info w rest where
      r: "collect_valuable cc fp mgr items = Inr rest"
      and i: "infos = (wrap_between_tags ''test_case_information'' info, w, i) # rest"
      by (auto split: if_splits sum.splits)
    from Cons.IH[OF r] i p show ?thesis by auto
  qed
qed

lemma set_insert_desc: "set (insert_desc x ys) = insert x (set ys)"
  by (induction ys) auto

lemma set_sort_desc: "set (sort_desc xs) = set xs"
  by (induction xs) (auto simp: sort_desc_def set_insert_desc)

lemma distinct_insert_desc:
  "distinct (map f (insert_desc x ys)) = (f x \<notin> f ` set ys \<and> distinct (map f ys))"
  by (induction ys) (auto simp: set_insert_desc)

lemma distinct_sort_desc: "distinct (map f (sort_desc xs)) = distinct (map f xs)"
  by (induction xs) (auto simp: sort_desc_def distinct_insert_desc set_insert_desc set_sort_desc[unfolded sort_desc_def])

lemma length_insert_desc: "length (insert_desc x ys) = Suc (length ys)"
  by (induction ys) auto

lemma length_sort_desc: "length (sort_desc xs) = length xs"
  by (induction xs) (auto simp: sort_desc_def length_insert_desc)

lemma sorted_insert_desc:
  "sorted_wrt (\<lambda>a b. \<not> key_greater b a) ys \<Longrightarrow> sorted_wrt (\<lambda>a b. \<not> key_greater b a) (insert_desc x ys)"
  by (induction ys) (auto simp: set_insert_desc key_greater_def)

lemma sorted_sort_desc: "sorted_wrt (\<lambda>a b. \<not> key_greater b a) (sort_desc xs)"
  by (induction xs) (auto simp: sort_desc_def sorted_insert_desc)

lemma join_snoc:
  "join sep (r # map fst (sel @ [x])) = r @ sep @ concat (map (\<lambda>y. fst y @ sep) sel) @ fst x"
  by (induction sel arbitrary: r) auto

lemma truncate_loop_result:
  assumes "truncate_loop est xs (SCHEDULING_FORMAT_REMINDER @ NL @ NL @ concat (map (\<lambda>y. fst y @ NL @ NL) sel)) sel = Inr view"
  shows "\<exists>k. k < length xs \<and> sel @ take k xs \<noteq> [] \<and> view = dict_of_infos (sel @ take k xs)
      \<and> est (info_text (sel @ take (Suc k) xs)) > TOKEN_LIMIT
      \<and> (\<forall>j. 0 < j \<and> j \<le> k \<longrightarrow> est (info_text (sel @ take j xs)) \<le> TOKEN_LIMIT)"
  using assms
proof (induction xs arbitrary: sel)
  case Nil
  then show ?case by simp
next
  case (Cons x xs)
  have eqt: "SCHEDULING_FORMAT_REMINDER @ NL @ NL @ concat (map (\<lambda>y. fst y @ NL @ NL) sel) @ fst x
     = info_text (sel @ [x])"
    using join_snoc[of "NL @ NL" SCHEDULING_FORMAT_REMINDER sel x] by (simp add: info_text_def)
  show ?case
  proof (cases "est (info_text (sel @ [x])) > TOKEN_LIMIT")
    case True
    with Cons.prems eqt have "sel \<noteq> []" "view = dict_of_infos sel"
      by (auto split: if_splits)
    with True show ?thesis by (intro exI[of _ 0]) simp
  next
    case False
    with Cons.prems eqt have
      "truncate_loop est xs (SCHEDULING_FORMAT_REMINDER @ NL @ NL @ concat (map (\<lambda>y. fst y @ NL @ NL) (sel @ [x]))) (sel @ [x]) = Inr view"
      by (auto split: if_splits)
    from Cons.IH[OF this] obtain k where k: "k < length xs" "view = dict_of_infos ((sel @ [x]) @ take k xs)"
      "est (info_text ((sel @ [x]) @ take (Suc k) xs)) > TOKEN_LIMIT"
      "\<forall>j. 0 < j \<and> j \<le> k \<longrightarrow> est (info_text ((sel @ [x]) @ take j xs)) \<le> TOKEN_LIMIT"
      by blast
    have "\<forall>j. 0 < j \<and> j \<le> Suc k \<longrightarrow> est (info_text (sel @ take j (x # xs))) \<le> TOKEN_LIMIT"
    proof (intro allI impI)
      fix j assume j: "0 < j \<and> j \<le> Suc k"
      then obtain j' where j': "j = Suc j'" by (cases j) auto
      show "est (info_text (sel @ take j (x # xs))) \<le> TOKEN_LIMIT"
      proof (cases j')
        case 0
        with j' False show ?thesis by simp
      next
        case (Suc n)
        with j j' k(4) have "est (info_text ((sel @ [x]) @ take j' xs)) \<le> TOKEN_LIMIT" by simp
        with j' show ?thesis by simp
      qed
    qed
    with k show ?thesis by (intro exI[of _ "Suc k"]) simp
  qed
qed

lemma key_greater_total:
  "\<not> key_greater y x \<Longrightarrow> snd (snd x) \<noteq> snd (snd y) \<Longrightarrow> key_greater x y"
  by (auto simp: key_greater_def)

lemma strict_from_distinct:
  assumes "sorted_wrt (\<lambda>a b. \<not> key_greater b a) xs" "distinct (map (\<lambda>x. snd (snd x)) xs)"
  shows "sorted_wrt key_greater xs"
  using assms
proof (induction xs)
  case Nil
  then show ?case by simp
next
  case (Cons x xs)
  have "\<forall>y\<in>set xs. key_greater x y"
  proof
    fix y assume y: "y \<in> set xs"
    with Cons.prems have "\<not> key_greater y x" "snd (snd x) \<noteq> snd (snd y)" by auto
    then show "key_greater x y" by (rule key_greater_total)
  qed
  with Cons show ?case by simp
qed

text \<open>
  C4 fails on the code, against the code's own assertion. The corpus \<open>one_big\<close> holds one
  valuable seed whose information text alone is over the budget of 180000 tokens. The
  truncation loop of \<open>get_all_scheduling_information\<close> drops the highest-ranked case as
  well, and the assertion of line 910 (\<open>len(selected_tc_ids) > 0\<close>, "should be at least one
  test case") raises: no view is returned and no case is kept.
\<close>

theorem single_case_over_budget_raises:
  "get_all_scheduling_information estimate_by_length (\<lambda>trace. Inr []) (\<lambda>r. ''0.0%'') one_big
     = Inl AssertionError
   \<and> map (\<lambda>p. is_valuable (snd p)) (test_cases one_big) = [True]"
  by (simp add: get_all_scheduling_information_def one_big_def big_case_def default_fields_def
      is_valuable_def get_test_case_scheduling_information_def get_testcase_def
      get_historical_information_def wrap_between_tags_def estimate_by_length_def
      TOKEN_LIMIT_def NL_def SCHEDULING_FORMAT_REMINDER_def sort_desc_def Let_def)

lemma two_big_view_ids:
  "map_sum id (map fst)
     (get_all_scheduling_information estimate_by_length (\<lambda>trace. Inr []) (\<lambda>r. ''0.0%'') two_big)
   = Inr [1]"
  by (simp add: get_all_scheduling_information_def two_big_def big_case_def default_fields_def
      is_valuable_def get_test_case_scheduling_information_def get_testcase_def
      get_historical_information_def wrap_between_tags_def estimate_by_length_def
      TOKEN_LIMIT_def NL_def SCHEDULING_FORMAT_REMINDER_def sort_desc_def Let_def key_greater_def
      dict_of_infos_def str_int_def)

text \<open>
  The views that are returned. Whenever \<open>get_all_scheduling_information\<close> returns a view
  of a corpus (a dictionary, so with distinct ids), the estimate of the text of the view
  is at most 180000. If the text of all valuable cases fits, the view holds all of them;
  otherwise it holds the first \<open>k\<close> of them in strictly descending order of the pair of
  weight and id, with \<open>k\<close> at least one, and adding the next case in that order would
  exceed the limit.
\<close>

theorem scheduling_view_within_budget:
  assumes ret: "get_all_scheduling_information est cc fp mgr = Inr view"
      and dist: "distinct (map fst (test_cases mgr))"
  shows "est (view_text view) \<le> TOKEN_LIMIT \<and>
    (\<exists>infos. collect_valuable cc fp mgr (test_cases mgr) = Inr infos \<and>
       sorted_wrt key_greater (sort_desc infos) \<and> set (sort_desc infos) = set infos \<and>
       (if est (info_text infos) \<le> TOKEN_LIMIT
        then view = map (\<lambda>x. (snd (snd x), fst x)) infos
        else \<exists>k. 0 < k \<and> k < length infos
               \<and> view = map (\<lambda>x. (snd (snd x), fst x)) (take k (sort_desc infos))
               \<and> est (info_text (take (Suc k) (sort_desc infos))) > TOKEN_LIMIT))"
proof -
  from ret obtain infos where
    cv: "collect_valuable cc fp mgr (test_cases mgr) = Inr infos"
    by (auto simp: get_all_scheduling_information_def split: if_splits sum.splits)
  from collect_valuable_ids[OF cv] dist have d: "distinct (map (\<lambda>x. snd (snd x)) infos)"
    by simp
  have ds: "distinct (map (\<lambda>x. snd (snd x)) (sort_desc infos))"
    using d by (simp add: distinct_sort_desc)
  have srt: "sorted_wrt key_greater (sort_desc infos)"
    using strict_from_distinct[OF sorted_sort_desc ds] .
  have vt: "\<And>ys. view_text (map (\<lambda>x. (snd (snd x), fst x)) ys) = info_text ys"
    by (simp add: view_text_def info_text_def comp_def)
  show ?thesis
  proof (cases "est (info_text infos) \<le> TOKEN_LIMIT")
    case True
    with ret cv have "view = dict_of_infos infos"
      by (auto simp: get_all_scheduling_information_def info_text_def Let_def split: if_splits)
    then have v: "view = map (\<lambda>x. (snd (snd x), fst x)) infos"
      using dict_of_infos_distinct[OF d] by simp
    with True cv srt show ?thesis by (auto simp: vt set_sort_desc)
  next
    case False
    with ret cv have
      "truncate_loop est (sort_desc infos)
         (SCHEDULING_FORMAT_REMINDER @ NL @ NL @ concat (map (\<lambda>y. fst y @ NL @ NL) [])) [] = Inr view"
      by (auto simp: get_all_scheduling_information_def info_text_def Let_def split: if_splits)
    from truncate_loop_result[OF this] obtain k where
      k: "k < length (sort_desc infos)" "take k (sort_desc infos) \<noteq> []"
         "view = dict_of_infos (take k (sort_desc infos))"
         "est (info_text (take (Suc k) (sort_desc infos))) > TOKEN_LIMIT"
         "\<forall>j. 0 < j \<and> j \<le> k \<longrightarrow> est (info_text (take j (sort_desc infos))) \<le> TOKEN_LIMIT"
      by auto
    from k(2) have kpos: "0 < k" by (cases k) auto
    have "distinct (map (\<lambda>x. snd (snd x)) (take k (sort_desc infos)))"
      using ds by (simp add: take_map[symmetric] distinct_take)
    from dict_of_infos_distinct[OF this] k(3)
    have v: "view = map (\<lambda>x. (snd (snd x), fst x)) (take k (sort_desc infos))" by simp
    have "est (view_text view) \<le> TOKEN_LIMIT"
      using k(5) kpos by (simp add: v vt)
    with False cv srt k(1,4) kpos v show ?thesis
      by (auto simp: set_sort_desc length_sort_desc)
  qed
qed

theorem scheduling_view_within_budget_witness:
  "(case get_all_scheduling_information estimate_by_length (\<lambda>trace. Inr []) (\<lambda>r. ''0.0%'') two_big of
      Inl e \<Rightarrow> False
    | Inr view \<Rightarrow> map fst view = [1] \<and> estimate_by_length (view_text view) \<le> TOKEN_LIMIT)
   \<and> distinct (map fst (test_cases two_big))"
proof -
  obtain view where
    v: "get_all_scheduling_information estimate_by_length (\<lambda>trace. Inr []) (\<lambda>r. ''0.0%'') two_big = Inr view"
    and ids: "map fst view = [1]"
    using two_big_view_ids by (cases "get_all_scheduling_information estimate_by_length (\<lambda>trace. Inr []) (\<lambda>r. ''0.0%'') two_big") auto
  have d: "distinct (map fst (test_cases two_big))" by (simp add: two_big_def)
  from scheduling_view_within_budget[OF v d] v ids d show ?thesis by simp
qed



subsection \<open>C2, C8, C10: the trace collector\<close>

lemma marker_enter: "match_marker (strip ''  // enter main 1'') = Some (''enter'', ''main'', 1)"
  by code_simp

lemma marker_none: "match_marker (strip ''  return 0;'') = None"
  by code_simp

lemma example_trace_blocks_raw: "get_executed_blocks (''enter main 1'' @ NL @ ''exit main 1'') = [GLOBAL_BLOCK, (''main'', 1)]"
  by code_simp


lemma example_source_kept: "delete_instrumentation_comments ''//''
     [''int main() {'', ''  // enter main 1'', ''  return 0;'', ''  // exit main 1'', ''}'']
   = [''int main() {'', ''  // enter main 1'', ''  return 0;'', ''  // exit main 1'', ''}'']"
  by code_simp

lemma example_line1_marker: "match_marker (strip ''int main() {'') = None" by code_simp
lemma example_line2_marker: "match_marker (strip ''  // enter main 1'') = Some (''enter'', ''main'', 1)" by code_simp
lemma example_line3_marker: "match_marker (strip ''  return 0;'') = None" by code_simp
lemma example_line4_marker: "match_marker (strip ''  // exit main 1'') = Some (''exit'', ''main'', 1)" by code_simp
lemma example_line5_marker: "match_marker (strip ''}'') = None" by code_simp

lemma example_collector_parsed: "new_TraceCollector ''main.c'' ''//'' 0 example_source = Inr example_collector"
  by (simp add: new_TraceCollector_def example_source_def example_collector_def example_source_kept
      example_line1_marker example_line2_marker example_line3_marker example_line4_marker
      example_line5_marker
      parse_line_def Let_def dict_get_def leaf_block_def last_item_def set_add_def
      GLOBAL_BLOCK_def INSTRUMENT_BLOCK_def fun_upd_twist upto.simps)

lemma distinct_set_add: "distinct xs \<Longrightarrow> distinct (set_add x xs)"
  by (simp add: set_add_def)

lemma distinct_add_line_blocks: "distinct bs \<Longrightarrow> distinct (add_line_blocks ls bs)"
  by (induction ls arbitrary: bs) (auto simp: distinct_set_add split: option.splits)

lemma distinct_get_executed_blocks: "distinct (get_executed_blocks trace_str)"
  by (simp add: get_executed_blocks_def distinct_add_line_blocks)

lemma block_hits_update:
  "block_hits (tc\<lparr>block2cov := (block2cov tc)(b \<mapsto> n)\<rparr>) b' = (if b' = b then n else block_hits tc b')"
  by (simp add: block_hits_def)

lemma add_coverage_loop_step:
  "add_coverage_loop tc (b # bs) acc =
     (if b = GLOBAL_BLOCK then add_coverage_loop (bump_block tc b) bs (fst acc, block_hits tc b = 0)
      else if block_hits tc b = 0 then
        (case dict_get (block2real_lines tc) b of
           Inl e \<Rightarrow> (bump_block tc b, Inl e)
         | Inr real_lines \<Rightarrow>
             (case count_block_lines (bump_block tc b) b [fst real_lines..snd real_lines] (fst acc) of
                Inl e \<Rightarrow> (bump_block tc b, Inl e)
              | Inr counted \<Rightarrow> add_coverage_loop (bump_block tc b) bs (counted, snd acc)))
      else add_coverage_loop (bump_block tc b) bs acc)"
  unfolding bump_block_def by (simp add: Let_def)

declare add_coverage_loop.simps(2) [simp del]

lemma add_coverage_loop_Cons:
  "(\<exists>e. add_coverage_loop tc (b # bs) acc = (bump_block tc b, Inl e))
   \<or> (\<exists>acc'. add_coverage_loop tc (b # bs) acc = add_coverage_loop (bump_block tc b) bs acc')"
proof (cases "b = GLOBAL_BLOCK")
  case True
  then have "add_coverage_loop tc (b # bs) acc
      = add_coverage_loop (bump_block tc b) bs (fst acc, block_hits tc b = 0)"
    by (simp add: add_coverage_loop_step)
  then show ?thesis by blast
next
  case False
  show ?thesis
  proof (cases "block_hits tc b = 0")
    case nz: False
    with False have "add_coverage_loop tc (b # bs) acc = add_coverage_loop (bump_block tc b) bs acc"
      by (simp add: add_coverage_loop_step)
    then show ?thesis by blast
  next
    case z: True
    show ?thesis
    proof (cases "dict_get (block2real_lines tc) b")
      case (Inl e)
      with False z have "add_coverage_loop tc (b # bs) acc = (bump_block tc b, Inl e)"
        by (simp add: add_coverage_loop_step)
      then show ?thesis by blast
    next
      case (Inr rl)
      show ?thesis
      proof (cases "count_block_lines (bump_block tc b) b [fst rl..snd rl] (fst acc)")
        case (Inl e)
        with False z Inr have "add_coverage_loop tc (b # bs) acc = (bump_block tc b, Inl e)"
          by (simp add: add_coverage_loop_step)
        then show ?thesis by blast
      next
        case counted: (Inr c)
        with False z Inr have "add_coverage_loop tc (b # bs) acc
            = add_coverage_loop (bump_block tc b) bs (c, snd acc)"
          by (simp add: add_coverage_loop_step)
        then show ?thesis by blast
      qed
    qed
  qed
qed

lemma add_coverage_loop_frame:
  "\<exists>cov. fst (add_coverage_loop tc bs acc) = tc\<lparr>block2cov := cov\<rparr>"
proof (induction bs arbitrary: tc acc)
  case Nil
  have "tc = tc\<lparr>block2cov := block2cov tc\<rparr>" by simp
  then show ?case by (intro exI[of _ "block2cov tc"]) simp
next
  case (Cons b bs)
  from add_coverage_loop_Cons[of tc b bs acc] show ?case
  proof
    assume "\<exists>e. add_coverage_loop tc (b # bs) acc = (bump_block tc b, Inl e)"
    then have "fst (add_coverage_loop tc (b # bs) acc) = bump_block tc b" by auto
    then show ?thesis unfolding bump_block_def by blast
  next
    assume "\<exists>acc'. add_coverage_loop tc (b # bs) acc = add_coverage_loop (bump_block tc b) bs acc'"
    then obtain acc' where e: "add_coverage_loop tc (b # bs) acc = add_coverage_loop (bump_block tc b) bs acc'"
      by blast
    from Cons.IH[of "bump_block tc b" acc'] obtain cov where
      "fst (add_coverage_loop (bump_block tc b) bs acc') = (bump_block tc b)\<lparr>block2cov := cov\<rparr>"
      by blast
    then have "fst (add_coverage_loop tc (b # bs) acc) = tc\<lparr>block2cov := cov\<rparr>"
      by (simp add: e bump_block_def)
    then show ?thesis by blast
  qed
qed

lemma block_hits_bump: "block_hits (bump_block tc b) b' = (if b' = b then block_hits tc b + 1 else block_hits tc b')"
  by (simp add: bump_block_def block_hits_def)

lemma add_coverage_loop_hits:
  "distinct bs \<Longrightarrow> snd (add_coverage_loop tc bs acc) = Inr r \<Longrightarrow>
   block_hits (fst (add_coverage_loop tc bs acc)) b' = block_hits tc b' + (if b' \<in> set bs then 1 else 0)"
proof (induction bs arbitrary: tc acc)
  case Nil
  then show ?case by simp
next
  case (Cons b bs)
  from add_coverage_loop_Cons[of tc b bs acc] show ?case
  proof
    assume "\<exists>e. add_coverage_loop tc (b # bs) acc = (bump_block tc b, Inl e)"
    with Cons.prems show ?thesis by auto
  next
    assume "\<exists>acc'. add_coverage_loop tc (b # bs) acc = add_coverage_loop (bump_block tc b) bs acc'"
    then obtain acc' where e: "add_coverage_loop tc (b # bs) acc = add_coverage_loop (bump_block tc b) bs acc'"
      by blast
    from Cons.prems e have "distinct bs" "snd (add_coverage_loop (bump_block tc b) bs acc') = Inr r" "b \<notin> set bs"
      by auto
    from Cons.IH[OF this(1,2)] this(3) show ?thesis
      by (auto simp: e block_hits_bump)
  qed
qed

text \<open>When every block has been hit before, the loop counts nothing and cannot raise.\<close>

lemma add_coverage_loop_old:
  "distinct bs \<Longrightarrow> \<forall>b\<in>set bs. block_hits tc b \<noteq> 0 \<Longrightarrow>
   snd (add_coverage_loop tc bs acc) = Inr (fst acc, if GLOBAL_BLOCK \<in> set bs then False else snd acc)"
proof (induction bs arbitrary: tc acc)
  case Nil
  then show ?case by simp
next
  case (Cons b bs)
  have nz: "block_hits tc b \<noteq> 0" using Cons.prems by simp
  have rest: "\<forall>b'\<in>set bs. block_hits (bump_block tc b) b' \<noteq> 0"
    using Cons.prems by (auto simp: block_hits_bump)
  have d: "distinct bs" using Cons.prems by simp
  show ?case
  proof (cases "b = GLOBAL_BLOCK")
    case True
    have "add_coverage_loop tc (b # bs) acc = add_coverage_loop (bump_block tc b) bs (fst acc, False)"
      using True nz by (simp add: add_coverage_loop_step)
    with Cons.IH[OF d rest, of "(fst acc, False)"] True show ?thesis by simp
  next
    case False
    have "add_coverage_loop tc (b # bs) acc = add_coverage_loop (bump_block tc b) bs acc"
      using False nz by (simp add: add_coverage_loop_step)
    with Cons.IH[OF d rest, of acc] False show ?thesis by simp
  qed
qed

lemma update_coverage_hits:
  assumes "distinct eb" "snd (update_coverage tc eb True) = Inr n"
  shows "block_hits (fst (update_coverage tc eb True)) b
     = block_hits tc b + (if b \<in> set eb then 1 else 0)"
proof -
  obtain tc1 r where l: "add_coverage_loop tc eb ((0, []), False) = (tc1, r)"
    by (cases "add_coverage_loop tc eb ((0, []), False)")
  with assms(2) obtain acc where r: "r = Inr acc"
    by (cases r) (auto simp: update_coverage_def split: if_splits)
  have f: "fst (update_coverage tc eb True) = tc1"
    using l r by (simp add: update_coverage_def)
  from add_coverage_loop_hits[OF assms(1), of tc "((0, []), False)" acc b] l r
  show ?thesis by (simp add: f)
qed

lemma update_coverage_old:
  assumes "distinct eb" "\<forall>b\<in>set eb. block_hits tc b \<noteq> 0"
  shows "snd (update_coverage tc eb True) = Inr 0"
proof -
  obtain tc1 r where l: "add_coverage_loop tc eb ((0, []), False) = (tc1, r)"
    by (cases "add_coverage_loop tc eb ((0, []), False)")
  from add_coverage_loop_old[OF assms, of "((0, []), False)"] l
  have "r = Inr ((0, []), False)" by (simp split: if_splits)
  with l show ?thesis by (simp add: update_coverage_def)
qed

lemma update_coverage_False: "update_coverage tc eb False = (tc, Inr 0)"
  by (simp add: update_coverage_def)

lemma real_line_hits_summary [simp]:
  "real_line_hits (tc\<lparr>last_summary := s\<rparr>) l = real_line_hits tc l"
  by (simp add: real_line_hits_def get_line_covered_times_def leaf_block_def block_hits_def
      split: sum.splits)

lemma block_hits_summary [simp]: "block_hits (tc\<lparr>last_summary := s\<rparr>) b = block_hits tc b"
  by (simp add: block_hits_def)

lemma lines_cov_summary [simp]: "lines_cov (tc\<lparr>last_summary := s\<rparr>) ls = lines_cov tc ls"
  by (induction ls) (auto split: sum.splits)

lemma target_lines_cov_summary [simp]:
  "target_lines_cov (tc\<lparr>last_summary := s\<rparr>) tgt = target_lines_cov tc tgt"
  by (simp add: target_lines_cov_def split: option.splits)


text \<open>The shape of a call of collect_trace that returns.\<close>

lemma collect_trace_returns:
  assumes "snd (collect_trace render fs tc tr tgt add) = Inr (n, covered, code)"
  shows "\<exists>ps sd cs.
      target_lines_cov tc tgt = Inr ps
    \<and> snd (update_coverage tc (get_executed_blocks tr) add) = Inr n
    \<and> render (fst (update_coverage tc (get_executed_blocks tr) add)) (get_executed_blocks tr) = Inr sd
    \<and> fst (collect_trace render fs tc tr tgt add)
        = (fst (update_coverage tc (get_executed_blocks tr) add))\<lparr>last_summary := sd\<rparr>
    \<and> target_lines_cov (fst (update_coverage tc (get_executed_blocks tr) add)) tgt = Inr cs
    \<and> covered = (if tgt \<noteq> None then is_target_lines_covered cs ps else True)
    \<and> fs sd = Inr code"
  using assms
  by (cases "update_coverage tc (get_executed_blocks tr) add")
     (auto simp: collect_trace_def Let_def split: sum.splits prod.splits if_splits)

text \<open>
  C10. A call of \<open>collect_trace\<close> with \<open>add_coverage = False\<close> leaves the hit count of
  every block as it was, whether it returns or raises; when it returns, the number of newly
  covered lines is \<open>0\<close>; the collector is unchanged but for its summary. The registry
  refuses target lines without \<open>add_coverage\<close> by its assertion.
\<close>

theorem collect_trace_without_coverage:
  "(\<forall>b. block_hits (fst (collect_trace render fs tc tr tgt False)) b = block_hits tc b)
   \<and> (\<forall>n covered code. snd (collect_trace render fs tc tr tgt False) = Inr (n, covered, code) \<longrightarrow> n = 0)
   \<and> (fst (collect_trace render fs tc tr tgt False) = tc
        \<or> (\<exists>sd. fst (collect_trace render fs tc tr tgt False) = tc\<lparr>last_summary := sd\<rparr>))
   \<and> (tgt \<noteq> None \<longrightarrow>
        Coverage_collect_trace new_collector normpath render fs cov path tr tgt False
          = (cov, Inl AssertionError))"
proof -
  have shape: "fst (collect_trace render fs tc tr tgt False) = tc
        \<or> (\<exists>sd. fst (collect_trace render fs tc tr tgt False) = tc\<lparr>last_summary := sd\<rparr>)"
    by (auto simp: collect_trace_def update_coverage_False Let_def split: sum.splits)
  then have hits: "\<forall>b. block_hits (fst (collect_trace render fs tc tr tgt False)) b = block_hits tc b"
    by auto
  have zero: "\<forall>n covered code. snd (collect_trace render fs tc tr tgt False) = Inr (n, covered, code) \<longrightarrow> n = 0"
    by (auto simp: collect_trace_def update_coverage_False Let_def split: sum.splits)
  have reg: "tgt \<noteq> None \<longrightarrow>
        Coverage_collect_trace new_collector normpath render fs cov path tr tgt False
          = (cov, Inl AssertionError)"
    by (simp add: Coverage_collect_trace_def)
  from shape hits zero reg show ?thesis by blast
qed

lemma example_no_coverage_result: "snd (collect_trace plain_render plain_format example_collector example_trace None False)
      = Inr (0, True, [])"
  by code_simp

lemma example_no_coverage_hits: "block_hits (fst (collect_trace plain_render plain_format example_collector example_trace None False)) (''main'', 1) = 0"
  by code_simp



lemma collect_trace_no_target:
  assumes "update_coverage tc' (get_executed_blocks tr) True = (tcu, Inr n)"
  shows "collect_trace render fs tc' tr None True
      = (case render tcu (get_executed_blocks tr) of
           Inl e \<Rightarrow> (tcu, Inl e)
         | Inr sd \<Rightarrow> (case fs sd of
                        Inl e \<Rightarrow> (tcu\<lparr>last_summary := sd\<rparr>, Inl e)
                      | Inr code \<Rightarrow> (tcu\<lparr>last_summary := sd\<rparr>, Inr (n, True, code))))"
  using assms by (simp add: collect_trace_def target_lines_cov_def Let_def split: sum.splits)

lemma collect_trace_twice_first:
  assumes "collect_trace render fs tc tr None True = (tcx, Inr r1)"
  shows "collect_trace_twice render fs tc tr
      = (case collect_trace render fs tcx tr None True of
           (tc2, Inl e) \<Rightarrow> (tc2, Inl e)
         | (tc2, Inr r2) \<Rightarrow> (tc2, Inr (r1, r2)))"
  using assms by (simp add: collect_trace_twice_def)

text \<open>
  C2 fails on the code, against the code's own assertion. \<open>get_executed_blocks\<close> reports
  the global block for every trace, so on a collector without coverage a trace that names
  no block (here the empty trace, on the collector of the file above) covers the file for
  the first time with no newly covered line, and the assertion of lines 363 to 366
  (\<open>new_covered_lines > 0\<close>) raises in the first call, whatever the summary rendering.
  The first ingestion reports nothing and the sequence of two calls ends there, with the
  global block counted once.
\<close>

theorem empty_trace_first_call_raises:
  "new_TraceCollector ''main.c'' ''//'' 0 example_source = Inr example_collector
   \<and> block_hits example_collector GLOBAL_BLOCK = 0
   \<and> get_executed_blocks [] = [GLOBAL_BLOCK]
   \<and> snd (collect_trace render fs example_collector [] None True) = Inl AssertionError
   \<and> snd (collect_trace_twice render fs example_collector []) = Inl AssertionError
   \<and> block_hits (fst (collect_trace_twice render fs example_collector [])) GLOBAL_BLOCK = 1"
proof -
  have b: "get_executed_blocks [] = [GLOBAL_BLOCK]" by code_simp
  have h: "block_hits example_collector GLOBAL_BLOCK = 0"
    by (simp add: block_hits_def example_collector_def)
  have u: "update_coverage example_collector [GLOBAL_BLOCK] True
      = (bump_block example_collector GLOBAL_BLOCK, Inl AssertionError)"
    by (simp add: update_coverage_def add_coverage_loop.simps(2) Let_def h bump_block_def)
  have c: "collect_trace render fs example_collector [] None True
      = (bump_block example_collector GLOBAL_BLOCK, Inl AssertionError)"
    by (simp add: collect_trace_def target_lines_cov_def b u)
  have t: "collect_trace_twice render fs example_collector []
      = (bump_block example_collector GLOBAL_BLOCK, Inl AssertionError)"
    by (simp add: collect_trace_twice_def c)
  from example_collector_parsed b h show ?thesis
    by (simp add: c t block_hits_bump)
qed

text \<open>
  Two ingestions of which the first returns. On a collector without coverage, if the
  first of two calls of \<open>collect_trace\<close> with the same trace (and \<open>add_coverage = True\<close>)
  returns, then every
  block observed in the trace has hit count \<open>1\<close> after the first call and \<open>2\<close> after the
  second; the second call cannot fail in the coverage update, so it returns whenever the
  summary rendering does, and then it reports \<open>0\<close> newly covered lines.
\<close>

theorem same_trace_twice:
  assumes fresh: "\<forall>b. block_hits tc b = 0"
      and first_call: "snd (collect_trace render fs tc tr None True) = Inr r1"
  shows "(\<forall>b\<in>set (get_executed_blocks tr).
            block_hits (fst (collect_trace render fs tc tr None True)) b = 1
          \<and> block_hits (fst (collect_trace_twice render fs tc tr)) b = 2)
     \<and> (\<forall>res. snd (collect_trace_twice render fs tc tr) = Inr res \<longrightarrow> fst res = r1 \<and> fst (snd res) = 0)
     \<and> snd (collect_trace_twice render fs tc tr)
         = (case render (fst (update_coverage (fst (collect_trace render fs tc tr None True))
                                (get_executed_blocks tr) True))
                   (get_executed_blocks tr) of
              Inl e \<Rightarrow> Inl e
            | Inr sd \<Rightarrow> (case fs sd of Inl e \<Rightarrow> Inl e | Inr code \<Rightarrow> Inr (r1, (0, True, code))))"
proof -
  define eb where "eb = get_executed_blocks tr"
  obtain n1 cov1 code1 where r1: "r1 = (n1, cov1, code1)" by (cases r1)
  have d: "distinct eb" unfolding eb_def by (rule distinct_get_executed_blocks)
  obtain tcx where c1: "collect_trace render fs tc tr None True = (tcx, Inr r1)"
    using first_call by (cases "collect_trace render fs tc tr None True") auto
  have f1: "fst (collect_trace render fs tc tr None True) = tcx" by (simp add: c1)
  from collect_trace_returns[OF first_call[unfolded r1]] obtain sd where
    u: "snd (update_coverage tc eb True) = Inr n1"
    and st: "tcx = (fst (update_coverage tc eb True))\<lparr>last_summary := sd\<rparr>"
    unfolding f1 eb_def by auto
  have h1: "block_hits tcx b = (if b \<in> set eb then 1 else 0)" for b
    using update_coverage_hits[OF d u, of b] fresh by (simp add: st)
  have old: "\<forall>b\<in>set eb. block_hits tcx b \<noteq> 0" using h1 by simp
  have u2: "snd (update_coverage tcx eb True) = Inr 0"
    by (rule update_coverage_old[OF d old])
  obtain tcu where up: "update_coverage tcx eb True = (tcu, Inr 0)"
    using u2 by (cases "update_coverage tcx eb True") auto
  have f2: "fst (update_coverage tcx eb True) = tcu" by (simp add: up)
  have h2: "block_hits tcu b = (if b \<in> set eb then 2 else 0)" for b
    using update_coverage_hits[OF d u2, of b] h1[of b] by (simp add: f2)
  have second: "collect_trace render fs tcx tr None True
      = (case render tcu eb of
           Inl e \<Rightarrow> (tcu, Inl e)
         | Inr sd \<Rightarrow> (case fs sd of
                        Inl e \<Rightarrow> (tcu\<lparr>last_summary := sd\<rparr>, Inl e)
                      | Inr code \<Rightarrow> (tcu\<lparr>last_summary := sd\<rparr>, Inr (0, True, code))))"
    using collect_trace_no_target[OF up[unfolded eb_def]] by (simp only: eb_def)
  note twice = collect_trace_twice_first[OF c1]
  have hits2: "block_hits (fst (collect_trace_twice render fs tc tr)) b = block_hits tcu b" for b
    by (simp add: twice second split: sum.splits)
  have res: "snd (collect_trace_twice render fs tc tr)
         = (case render tcu eb of
              Inl e \<Rightarrow> Inl e
            | Inr sd \<Rightarrow> (case fs sd of Inl e \<Rightarrow> Inl e | Inr code \<Rightarrow> Inr (r1, (0, True, code))))"
    by (simp add: twice second split: sum.splits)
  have zero: "\<forall>res. snd (collect_trace_twice render fs tc tr) = Inr res \<longrightarrow> fst res = r1 \<and> fst (snd res) = 0"
    by (auto simp: res split: sum.splits)
  have p1: "\<forall>b\<in>set (get_executed_blocks tr).
            block_hits (fst (collect_trace render fs tc tr None True)) b = 1
          \<and> block_hits (fst (collect_trace_twice render fs tc tr)) b = 2"
    using h1 h2 hits2 by (simp add: f1 eb_def)
  have p3: "snd (collect_trace_twice render fs tc tr)
         = (case render (fst (update_coverage (fst (collect_trace render fs tc tr None True))
                                (get_executed_blocks tr) True))
                   (get_executed_blocks tr) of
              Inl e \<Rightarrow> Inl e
            | Inr sd \<Rightarrow> (case fs sd of Inl e \<Rightarrow> Inl e | Inr code \<Rightarrow> Inr (r1, (0, True, code))))"
    using res f2 by (simp only: f1 eb_def)
  from p1 zero p3 show ?thesis by blast
qed

lemma example_first_result: "snd (collect_trace plain_render plain_format example_collector example_trace None True)
      = Inr (1, True, [])"
  by code_simp

lemma example_twice_result: "snd (collect_trace_twice plain_render plain_format example_collector example_trace)
      = Inr ((1, True, []), (0, True, []))"
  by code_simp


lemma example_blocks: "get_executed_blocks example_trace = [GLOBAL_BLOCK, (''main'', 1)]"
  by code_simp

theorem collect_trace_without_coverage_witness:
  "block_hits (fst (collect_trace plain_render plain_format example_collector example_trace None False))
      (''main'', 1) = block_hits example_collector (''main'', 1)
   \<and> snd (collect_trace plain_render plain_format example_collector example_trace None False)
       = Inr (0, True, [])
   \<and> Coverage_collect_trace (\<lambda>p. new_TraceCollector p ''//'' 0 example_source) (\<lambda>p. p)
        plain_render plain_format \<lparr>file2cov = Map.empty\<rparr> ''main.c'' example_trace (Some (2, 2)) False
       = (\<lparr>file2cov = Map.empty\<rparr>, Inl AssertionError)"
  using collect_trace_without_coverage
    [where render = plain_render and fs = plain_format and tc = example_collector
       and tr = example_trace and tgt = None]
    collect_trace_without_coverage
    [where render = plain_render and fs = plain_format and tc = example_collector
       and tr = example_trace and tgt = "Some (2, 2)"
       and new_collector = "\<lambda>p. new_TraceCollector p ''//'' 0 example_source"
       and normpath = "\<lambda>p. p" and cov = "\<lparr>file2cov = Map.empty\<rparr>" and path = "''main.c''"]
    example_no_coverage_result
  by simp


theorem same_trace_twice_witness:
  "(\<forall>b. block_hits example_collector b = 0)
   \<and> snd (collect_trace plain_render plain_format example_collector example_trace None True)
       = Inr (1, True, [])
   \<and> block_hits (fst (collect_trace plain_render plain_format example_collector example_trace None True))
        (''main'', 1) = 1
   \<and> block_hits (fst (collect_trace_twice plain_render plain_format example_collector example_trace))
        (''main'', 1) = 2
   \<and> snd (collect_trace_twice plain_render plain_format example_collector example_trace)
       = Inr ((1, True, []), (0, True, []))"
proof -
  have fresh: "\<forall>b. block_hits example_collector b = 0"
    by (simp add: block_hits_def example_collector_def)
  have m: "(''main'', 1) \<in> set (get_executed_blocks example_trace)"
    by (simp add: example_blocks)
  from same_trace_twice[OF fresh example_first_result] m fresh example_first_result example_twice_result show ?thesis by blast
qed

subsection \<open>C6: the observations of the solver\<close>

text \<open>
  C6 fails on the code, against the docstring of \<open>process_smt_solver\<close> (the flag is
  "satisfiable && execution_succeeded"). The constraint \<open>z3.BoolVal(True)\<close> is in the
  direct dialect; for every evaluator that accepts it and every solver that answers
  \<open>sat\<close> with a model that declares no variable, the listing is the empty text, and the
  test \<open>if result_str\<close> of line 291 takes it for a failure: the observation is the empty
  error message and the success flag is false.
\<close>

theorem sat_with_empty_model:
  assumes "py_eval ext ''z3.BoolVal(True)'' = Returned c" and "z3_check ext c = Inr (Sat [])"
  shows "process_smt_solver ext (Some ''z3.BoolVal(True)'') = Some ([], False)"
proof -
  have s: "strip ''z3.BoolVal(True)'' = ''z3.BoolVal(True)''" by code_simp
  have f: "strip_code_fence ''z3.BoolVal(True)'' = ''z3.BoolVal(True)''" by code_simp
  have l: "split_on CHR 0x0A ''z3.BoolVal(True)'' = [''z3.BoolVal(True)'']" by code_simp
  have i: "is_format1 [''z3.BoolVal(True)'']" by code_simp
  have e: "join NL (solution_lines []) = []" by code_simp
  show ?thesis
    using assms by (simp add: process_smt_solver_def s f l i Let_def solve_constraint_def e)
qed

theorem sat_with_empty_model_witness:
  "py_eval trivial_sat_externals ''z3.BoolVal(True)'' = Returned ()
   \<and> z3_check trivial_sat_externals () = Inr (Sat [])
   \<and> process_smt_solver trivial_sat_externals (Some ''z3.BoolVal(True)'') = Some ([], False)"
  using sat_with_empty_model[of trivial_sat_externals "()"]
  by (simp add: trivial_sat_externals_def)

subsection \<open>C5: the code-block dialect\<close>








subsection \<open>C3: saving and loading a test case\<close>

text \<open>
  C3 fails on the code. \<open>target_file_lines_to_str\<close> writes the path, a colon and the line
  range, and \<open>str_to_target_file_lines\<close> splits at the first colon, so a path that
  contains a colon is cut short and the rest of it is read as the line range. For the
  case below, whose target file is \<open>src/a:b.c\<close>, and for every YAML layer that reads back
  the dictionary that was written, \<open>save_to_disk\<close> writes the file and \<open>load_from_file\<close>
  raises \<open>ValueError\<close> on it: no test case is loaded.
\<close>

theorem colon_path_round_trip_fails:
  assumes dump: "yaml_dump ext (to_dict (usage_empty ext) (format_usage ext) colon_case) = Some yaml_str"
      and load: "yaml_load ext (filter (\<lambda>c. c \<noteq> CHR 0x00 \<and> c \<noteq> CHR 0x04 \<and> c \<noteq> CHR 0x7F) yaml_str)
                   = Inr (Some (to_dict (usage_empty ext) (format_usage ext) colon_case))"
  shows "save_to_disk ext colon_case d = Inr (d(''out/queue/id:000007,src:000000.yaml'' \<mapsto> yaml_str))
     \<and> load_from_file ext ''out/queue/id:000007,src:000000.yaml'' ''out''
          (d(''out/queue/id:000007,src:000000.yaml'' \<mapsto> yaml_str)) = Inl ValueError
     \<and> target_file_lines (to_dict (usage_empty ext) (format_usage ext) colon_case)
          = Some ''src/a:b.c:1-2''"
proof -
  have fn: "path_join (path_join ''out'' ''queue'') (yaml_filename colon_case)
      = ''out/queue/id:000007,src:000000.yaml''" by code_simp
  have od: "tc_out_dir colon_case = Some ''out''" "is_crash colon_case = False"
    "is_hang colon_case = False"
    by (simp_all add: colon_case_def default_fields_def)
  have tfl: "target_file_lines (to_dict (usage_empty ext) (format_usage ext) colon_case)
      = Some ''src/a:b.c:1-2''"
    by (simp add: to_dict_def colon_case_def default_fields_def target_file_lines_to_str_def
        str_int_def digit_char_def)
  have bad: "str_to_target_file_lines (Some ''src/a:b.c:1-2'') = Inl ValueError" by code_simp
  have fd: "from_dict eu pu now
      (to_dict (usage_empty ext) (format_usage ext) colon_case) = Inl ValueError" for eu pu now
    by (simp add: from_dict_def tfl bad)
  have sv: "save_to_disk ext colon_case d = Inr (d(''out/queue/id:000007,src:000000.yaml'' \<mapsto> yaml_str))"
    using dump by (simp add: save_to_disk_def od Let_def fn)
  have ld: "load_from_file ext ''out/queue/id:000007,src:000000.yaml'' ''out''
          (d(''out/queue/id:000007,src:000000.yaml'' \<mapsto> yaml_str)) = Inl ValueError"
    using load by (simp add: load_from_file_def fd)
  from sv ld tfl show ?thesis by simp
qed

theorem colon_path_round_trip_fails_witness:
  "yaml_dump echo_yaml (to_dict (usage_empty echo_yaml) (format_usage echo_yaml) colon_case)
      = Some ''id: 7''
   \<and> yaml_load echo_yaml (filter (\<lambda>c. c \<noteq> CHR 0x00 \<and> c \<noteq> CHR 0x04 \<and> c \<noteq> CHR 0x7F) ''id: 7'')
       = Inr (Some (to_dict (usage_empty echo_yaml) (format_usage echo_yaml) colon_case))
   \<and> save_to_disk echo_yaml colon_case Map.empty
       = Inr [''out/queue/id:000007,src:000000.yaml'' \<mapsto> ''id: 7'']
   \<and> load_from_file echo_yaml ''out/queue/id:000007,src:000000.yaml'' ''out''
        [''out/queue/id:000007,src:000000.yaml'' \<mapsto> ''id: 7''] = Inl ValueError"
  using colon_path_round_trip_fails[of echo_yaml "''id: 7''" Map.empty]
  by (simp add: echo_yaml_def plain_externals_def)

end
